theory Spec2Isabelle
  imports Complex_Main
begin

section \<open>DICe camera system: a shallow embedding of DICe\_CameraSystem.cpp\<close>

text \<open>
  The embedding follows src/src/core/DICe\_CameraSystem.cpp function by function.
  \<^item> \<open>scalar_t\<close> is read as \<open>real\<close>: the theory is about which expressions the code
    evaluates, not about rounding.
  \<^item> \<open>size_t\<close> values are \<open>nat\<close>, \<open>int_t\<close> values are \<open>int\<close>.
  \<^item> A thrown exception is the \<open>Inl\<close> branch of a sum. Member functions that change the
    object return the object next to their outcome, so that what a call leaves behind is
    visible on the throwing path as well.
  \<^item> Trailing underscores of member names are dropped (\<open>rot_trans_3D_x_\<close> is the field
    \<open>rot_trans_3D_x\<close>).
\<close>

subsection \<open>Errors\<close>

datatype error =
    Runtime_Error string            \<comment> \<open>\<open>std::runtime_error\<close> of \<open>TEUCHOS_TEST_FOR_EXCEPTION\<close>\<close>
  | Invalid_Parameter_Name string   \<comment> \<open>\<open>ParameterList::get\<close> on a name that is absent\<close>
  | Invalid_Parameter_Type string   \<comment> \<open>\<open>ParameterList::get\<close> on an entry of another type\<close>
  | Undefined_Behaviour string      \<comment> \<open>an unchecked \<open>operator[]\<close> read past the end\<close>
  | Assertion_Failed string         \<comment> \<open>a failed \<open>assert\<close> in a build that keeps them\<close>
  | Collaborator_Error string       \<comment> \<open>anything a function outside this file throws\<close>

subsection \<open>Data model\<close>

datatype system_type_3d = UNKNOWN_SYSTEM | GENERIC_SYSTEM | VIC3D | OTHER_SYSTEM nat

datatype lens_distortion_model =
  NO_LENS_DISTORTION | OPENCV_DIS | VIC3D_DIS | K1R1_K2R2_K3R3 | K1R2_K2R4_K3R6 | K1R3_K2R5_K3R7

record camera_info =
  cam_id :: string
  image_height :: int
  image_width :: int
  pixel_depth :: int
  lens :: string
  comments :: string
  lens_distortion_model :: lens_distortion_model
  intrinsics :: "real list"
  tx :: real
  ty :: real
  tz :: real
  rotation_matrix :: "real list list"

record camera_system =
  cameras :: "camera_info list"
  max_num_cameras_allowed :: nat
  user_6x1_trans :: "real list"
  user_4x4_trans :: "real list list"
  sys_type :: system_type_3d
  has_6_transform :: bool
  has_4x4_transform :: bool
  rot_trans_3D_x :: "real list"
  rot_trans_3D_y :: "real list"
  rot_trans_3D_z :: "real list"
  rot_trans_3D_dx :: "real list list"
  rot_trans_3D_dy :: "real list list"
  rot_trans_3D_dz :: "real list list"

text \<open>
  \<open>Camera_System::Camera_System()\<close>. The constructor names five members; the camera list
  and the rotation caches are default-constructed. The caches \<open>rot_trans_3D_dx_\<close>,
  \<open>_dy_\<close>, \<open>_dz_\<close> are indexed by parameter 0..5 before anything sizes them, so they are
  taken to be arrays of six (empty) vectors; the 4x4 matrix is zero, as the constructor's
  comment says.
\<close>

definition Camera_System :: camera_system where
  "Camera_System =
     \<lparr> cameras = [], max_num_cameras_allowed = 10, user_6x1_trans = replicate 6 0,
       user_4x4_trans = replicate 4 (replicate 4 0), sys_type = UNKNOWN_SYSTEM,
       has_6_transform = False, has_4x4_transform = False,
       rot_trans_3D_x = [], rot_trans_3D_y = [], rot_trans_3D_z = [],
       rot_trans_3D_dx = replicate 6 [], rot_trans_3D_dy = replicate 6 [],
       rot_trans_3D_dz = replicate 6 [] \<rparr>"

definition num_cameras :: "camera_system \<Rightarrow> nat" where
  "num_cameras st = length (cameras st)"

subsection \<open>Rigid-body transform\<close>

text \<open>
  Modelled from the spec: the enumerators \<open>ANGLE_X\<close> .. \<open>TRANSLATION_Z\<close> are declared in a
  header that is not part of the sources; the spec orders the rigid-body parameters as
  angle x, angle y, angle z, translation x, translation y, translation z.
\<close>

definition ANGLE_X :: nat where "ANGLE_X = 0"
definition ANGLE_Y :: nat where "ANGLE_Y = 1"
definition ANGLE_Z :: nat where "ANGLE_Z = 2"
definition TRANSLATION_X :: nat where "TRANSLATION_X = 3"
definition TRANSLATION_Y :: nat where "TRANSLATION_Y = 4"
definition TRANSLATION_Z :: nat where "TRANSLATION_Z = 5"

text \<open>Four consecutive element writes \<open>v[0] = a; v[1] = b; v[2] = c; v[3] = d\<close>.\<close>

definition set4 :: "real list \<Rightarrow> real \<Rightarrow> real \<Rightarrow> real \<Rightarrow> real \<Rightarrow> real list" where
  "set4 v a b c d = v[0 := a, 1 := b, 2 := c, 3 := d]"

text \<open>The same four writes into row \<open>r\<close> of an array of vectors.\<close>

definition set_row4 :: "real list list \<Rightarrow> nat \<Rightarrow> real \<Rightarrow> real \<Rightarrow> real \<Rightarrow> real \<Rightarrow> real list list" where
  "set_row4 m r a b c d = m[r := set4 (m ! r) a b c d]"

text \<open>The first-call block of \<open>initialize_rot_trans_3D\<close> (lines 821-830).\<close>

definition assign_rot_trans_3D :: "camera_system \<Rightarrow> camera_system" where
  "assign_rot_trans_3D st =
     (if length (rot_trans_3D_x st) \<noteq> 4 then
        st\<lparr> rot_trans_3D_x := replicate 4 0,
            rot_trans_3D_y := replicate 4 0,
            rot_trans_3D_z := replicate 4 0,
            rot_trans_3D_dx := fold (\<lambda>i m. m[i := replicate 4 0]) [0..<6] (rot_trans_3D_dx st),
            rot_trans_3D_dy := fold (\<lambda>i m. m[i := replicate 4 0]) [0..<6] (rot_trans_3D_dy st),
            rot_trans_3D_dz := fold (\<lambda>i m. m[i := replicate 4 0]) [0..<6] (rot_trans_3D_dz st) \<rparr>
      else st)"

text \<open>The coefficient writes of lines 843-854.\<close>

definition set_rot_trans_coefficients ::
  "real \<Rightarrow> real \<Rightarrow> real \<Rightarrow> real \<Rightarrow> real \<Rightarrow> real \<Rightarrow> real \<Rightarrow> real \<Rightarrow> real \<Rightarrow>
   camera_system \<Rightarrow> camera_system" where
  "set_rot_trans_coefficients cx cy cz sx sy sz t_x t_y t_z st =
     st\<lparr> rot_trans_3D_x :=
           set4 (rot_trans_3D_x st) (cy * cz) (sx * sy * cz - cx * sz) (cx * sy * cz + sx * sz) t_x,
         rot_trans_3D_y :=
           set4 (rot_trans_3D_y st) (cy * sz) (sx * sy * sz + cx * cz) (cx * sy * sz - sx * cz) t_y,
         rot_trans_3D_z :=
           set4 (rot_trans_3D_z st) (- sy) (sx * cy) (cx * cy) t_z \<rparr>"

text \<open>The partials block of lines 856-895, one row of four writes after the other.\<close>

definition set_rot_trans_partials ::
  "real \<Rightarrow> real \<Rightarrow> real \<Rightarrow> real \<Rightarrow> real \<Rightarrow> real \<Rightarrow> camera_system \<Rightarrow> camera_system" where
  "set_rot_trans_partials cx cy cz sx sy sz st =
     (let dx1 = set_row4 (rot_trans_3D_dx st) ANGLE_X
                  0 (cx * sy * cz + sx * sz) (- sx * sy * cz + cx * sz) 0;
          dy1 = set_row4 (rot_trans_3D_dy st) ANGLE_X
                  0 (cx * sy * sz - sx * cz) (- sx * sy * sz - cx * cz) 0;
          dz1 = set_row4 (rot_trans_3D_dz st) ANGLE_X
                  0 (cx * cy) (- sx * cy) 0;
          dx2 = set_row4 dx1 ANGLE_Y (- sy * cz) (sx * cy * cz) (cx * cy * cz) 0;
          dy2 = set_row4 dy1 ANGLE_Y (- sy * sz) (sx * cy * sz) (cx * cy * sz) 0;
          dz2 = set_row4 dz1 ANGLE_Y (- cy) (- sx * sy) (- cx * sy) 0;
          dx3 = set_row4 dx2 ANGLE_Z
                  (- cy * sz) (- sx * sy * sz - cx * cz) (- cx * sy * sz + sx * cz) 0;
          dy3 = set_row4 dy2 ANGLE_Z
                  (cy * cz) (sx * sy * cz - cx * sz) (cx * sy * cz + sx * sz) 0;
          dz3 = set_row4 dz2 ANGLE_Z 0 0 0 0
      in st\<lparr> rot_trans_3D_dx := dx3, rot_trans_3D_dy := dy3, rot_trans_3D_dz := dz3 \<rparr>)"

text \<open>
  \<open>Camera_System::initialize_rot_trans_3D\<close>. The size test on the parameters comes after
  the first-call block, so a throwing call can leave the caches assigned.
\<close>

definition initialize_rot_trans_3D ::
  "real list \<Rightarrow> bool \<Rightarrow> camera_system \<Rightarrow> camera_system \<times> (error + unit)" where
  "initialize_rot_trans_3D rigid_body_params partials st =
     (let st1 = assign_rot_trans_3D st in
      if length rigid_body_params \<noteq> 6 then (st1, Inl (Runtime_Error []))
      else
        let cx = cos (rigid_body_params ! ANGLE_X);
            cy = cos (rigid_body_params ! ANGLE_Y);
            cz = cos (rigid_body_params ! ANGLE_Z);
            sx = sin (rigid_body_params ! ANGLE_X);
            sy = sin (rigid_body_params ! ANGLE_Y);
            sz = sin (rigid_body_params ! ANGLE_Z);
            t_x = rigid_body_params ! TRANSLATION_X;
            t_y = rigid_body_params ! TRANSLATION_Y;
            t_z = rigid_body_params ! TRANSLATION_Z;
            st2 = set_rot_trans_coefficients cx cy cz sx sy sz t_x t_y t_z st1
        in (if partials then set_rot_trans_partials cx cy cz sx sy sz st2 else st2, Inr ()))"

text \<open>
  The argument checks of \<open>rot_trans_3D\<close> (lines 909-928), in the order of the source.
  The first test throws when \<open>source_x.size() != 0\<close>.
\<close>

definition rot_trans_3D_checks ::
  "real list \<Rightarrow> real list \<Rightarrow> real list \<Rightarrow> real list \<Rightarrow> real list \<Rightarrow> real list \<Rightarrow>
   real list list \<Rightarrow> real list list \<Rightarrow> real list list \<Rightarrow> error + unit" where
  "rot_trans_3D_checks source_x source_y source_z target_x target_y target_z
       target_dx target_dy target_dz =
     (if length source_x \<noteq> 0 then Inl (Runtime_Error [])
      else
        let vec_size = length source_x in
        if length source_y \<noteq> vec_size then Inl (Runtime_Error [])
        else if length source_z \<noteq> vec_size then Inl (Runtime_Error [])
        else if length target_x \<noteq> vec_size then Inl (Runtime_Error [])
        else if length target_y \<noteq> vec_size then Inl (Runtime_Error [])
        else if length target_z \<noteq> vec_size then Inl (Runtime_Error [])
        else if length target_dx > 0 then
          (if length target_dx \<noteq> 6 then Inl (Runtime_Error [])
           else if length target_dy \<noteq> 6 then Inl (Runtime_Error [])
           else if length target_dz \<noteq> 6 then Inl (Runtime_Error [])
           else if list_ex (\<lambda>i. length (target_dx ! i) \<noteq> vec_size
                              \<or> length (target_dy ! i) \<noteq> vec_size
                              \<or> length (target_dz ! i) \<noteq> vec_size) [0..<length target_dx]
           then Inl (Runtime_Error [])
           else Inr ())
        else Inr ())"

text \<open>The coordinate loop of lines 933-937: one pass over \<open>i\<close> writing the three targets.\<close>

definition transform_coordinates ::
  "camera_system \<Rightarrow> real list \<Rightarrow> real list \<Rightarrow> real list \<Rightarrow> nat \<Rightarrow>
   real list \<times> real list \<times> real list \<Rightarrow> real list \<times> real list \<times> real list" where
  "transform_coordinates st source_x source_y source_z vec_size =
     fold (\<lambda>i (target_x, target_y, target_z).
        (target_x[i := rot_trans_3D_x st ! 0 * source_x ! i + rot_trans_3D_x st ! 1 * source_y ! i
                        + rot_trans_3D_x st ! 2 * source_z ! i + rot_trans_3D_x st ! 3],
         target_y[i := rot_trans_3D_y st ! 0 * source_x ! i + rot_trans_3D_y st ! 1 * source_y ! i
                        + rot_trans_3D_y st ! 2 * source_z ! i + rot_trans_3D_y st ! 3],
         target_z[i := rot_trans_3D_z st ! 0 * source_x ! i + rot_trans_3D_z st ! 1 * source_y ! i
                        + rot_trans_3D_z st ! 2 * source_z ! i + rot_trans_3D_z st ! 3]))
       [0..<vec_size]"

text \<open>The inner loop of lines 941-945 for one angle \<open>j\<close>.\<close>

definition angle_partials ::
  "camera_system \<Rightarrow> real list \<Rightarrow> real list \<Rightarrow> real list \<Rightarrow> nat \<Rightarrow> nat \<Rightarrow>
   real list list \<times> real list list \<times> real list list \<Rightarrow>
   real list list \<times> real list list \<times> real list list" where
  "angle_partials st source_x source_y source_z vec_size j =
     fold (\<lambda>i (target_dx, target_dy, target_dz).
        (target_dx[j := (target_dx ! j)[i :=
            rot_trans_3D_dx st ! j ! 0 * source_x ! i + rot_trans_3D_dx st ! j ! 1 * source_y ! i
            + rot_trans_3D_dx st ! j ! 2 * source_z ! i]],
         target_dy[j := (target_dy ! j)[i :=
            rot_trans_3D_dy st ! j ! 0 * source_x ! i + rot_trans_3D_dy st ! j ! 1 * source_y ! i
            + rot_trans_3D_dy st ! j ! 2 * source_z ! i]],
         target_dz[j := (target_dz ! j)[i :=
            rot_trans_3D_dz st ! j ! 0 * source_x ! i + rot_trans_3D_dz st ! j ! 1 * source_y ! i
            + rot_trans_3D_dz st ! j ! 2 * source_z ! i]]))
       [0..<vec_size]"

text \<open>\<open>std::fill(m[r].begin(), m[r].end(), v)\<close>.\<close>

definition fill_row :: "real list list \<Rightarrow> nat \<Rightarrow> real \<Rightarrow> real list list" where
  "fill_row m r v = m[r := replicate (length (m ! r)) v]"

text \<open>The derivative block of lines 940-952.\<close>

definition calculate_partials ::
  "camera_system \<Rightarrow> real list \<Rightarrow> real list \<Rightarrow> real list \<Rightarrow> nat \<Rightarrow>
   real list list \<times> real list list \<times> real list list \<Rightarrow>
   real list list \<times> real list list \<times> real list list" where
  "calculate_partials st source_x source_y source_z vec_size d =
     (case fold (\<lambda>j d.
              case angle_partials st source_x source_y source_z vec_size j d of
                (target_dx, target_dy, target_dz) \<Rightarrow>
                  (fill_row target_dx (j + 3) 0, fill_row target_dy (j + 3) 0,
                   fill_row target_dz (j + 3) 0))
            [0..<3] d of
        (target_dx, target_dy, target_dz) \<Rightarrow>
          (fill_row target_dx 3 1, fill_row target_dy 4 1, fill_row target_dz 5 1))"

text \<open>
  \<open>Camera_System::rot_trans_3D\<close>, the overload with derivative outputs. The result holds
  the object as the call leaves it and, when nothing is thrown, the six output arguments.
\<close>

type_synonym rot_trans_out =
  "real list \<times> real list \<times> real list \<times> real list list \<times> real list list \<times> real list list"

definition rot_trans_3D ::
  "camera_system \<Rightarrow> real list \<Rightarrow> real list \<Rightarrow> real list \<Rightarrow> real list \<Rightarrow> real list \<Rightarrow>
   real list \<Rightarrow> real list \<Rightarrow> real list list \<Rightarrow> real list list \<Rightarrow> real list list \<Rightarrow>
   camera_system \<times> (error + rot_trans_out)" where
  "rot_trans_3D st source_x source_y source_z target_x target_y target_z params
       target_dx target_dy target_dz =
     (case rot_trans_3D_checks source_x source_y source_z target_x target_y target_z
             target_dx target_dy target_dz of
        Inl e \<Rightarrow> (st, Inl e)
      | Inr _ \<Rightarrow>
          (let vec_size = length source_x;
               has_derivatives = length target_dx > 0;
               st1 = fst (initialize_rot_trans_3D params has_derivatives st)
           in case snd (initialize_rot_trans_3D params has_derivatives st) of
                Inl e \<Rightarrow> (st1, Inl e)
              | Inr _ \<Rightarrow>
                  (let t = transform_coordinates st1 source_x source_y source_z vec_size
                             (target_x, target_y, target_z);
                       d = (if has_derivatives
                            then calculate_partials st1 source_x source_y source_z vec_size
                                   (target_dx, target_dy, target_dz)
                            else (target_dx, target_dy, target_dz))
                   in (st1, Inr (fst t, fst (snd t), snd (snd t),
                                 fst d, fst (snd d), snd (snd d))))))"

text \<open>
  Modelled from the spec: the overload of \<open>rot_trans_3D\<close> without derivative outputs is
  declared in a header that is not part of the sources. The spec's contract
  \<open>rotate_translate(points, rigid_body_params, [want_derivatives])\<close> makes it the same
  transform with no derivative rows.
\<close>

definition rot_trans_3D_coords ::
  "camera_system \<Rightarrow> real list \<Rightarrow> real list \<Rightarrow> real list \<Rightarrow> real list \<Rightarrow> real list \<Rightarrow>
   real list \<Rightarrow> real list \<Rightarrow> camera_system \<times> (error + real list \<times> real list \<times> real list)" where
  "rot_trans_3D_coords st source_x source_y source_z target_x target_y target_z params =
     (let r = rot_trans_3D st source_x source_y source_z target_x target_y target_z params
                [] [] []
      in case snd r of
           Inl e \<Rightarrow> (fst r, Inl e)
         | Inr out \<Rightarrow> (fst r, Inr (fst out, fst (snd out), fst (snd (snd out)))))"

subsection \<open>Cross-camera projection\<close>

text \<open>
  Modelled from the spec: the per-camera optical model (class \<open>Camera\<close>) is not part of the
  sources. The spec lists its six stages, each taking and returning batches of
  coordinates, each with an overload taking and returning per-parameter partials. A stage
  is a parameter of the model: it receives the camera and the arguments of the call in
  the source's order (the prior contents of the output vectors included) and returns the
  new contents of its output arguments, or throws. The stages do not touch the
  \<open>Camera_System\<close> object.
\<close>

type_synonym coords = "real list"
type_synonym partials = "real list list"

record camera_ops =
  image_to_sensor ::
    "camera_info \<Rightarrow> coords \<Rightarrow> coords \<Rightarrow> coords \<Rightarrow> coords \<Rightarrow> error + coords \<times> coords"
  sensor_to_cam ::
    "camera_info \<Rightarrow> coords \<Rightarrow> coords \<Rightarrow> coords \<Rightarrow> coords \<Rightarrow> coords \<Rightarrow> real list \<Rightarrow>
     error + coords \<times> coords \<times> coords"
  sensor_to_cam_d ::
    "camera_info \<Rightarrow> coords \<Rightarrow> coords \<Rightarrow> coords \<Rightarrow> coords \<Rightarrow> coords \<Rightarrow> real list \<Rightarrow>
     partials \<Rightarrow> partials \<Rightarrow> partials \<Rightarrow>
     error + (coords \<times> coords \<times> coords) \<times> (partials \<times> partials \<times> partials)"
  cam_to_world ::
    "camera_info \<Rightarrow> coords \<Rightarrow> coords \<Rightarrow> coords \<Rightarrow> coords \<Rightarrow> coords \<Rightarrow> coords \<Rightarrow>
     error + coords \<times> coords \<times> coords"
  cam_to_world_d ::
    "camera_info \<Rightarrow> coords \<Rightarrow> coords \<Rightarrow> coords \<Rightarrow> coords \<Rightarrow> coords \<Rightarrow> coords \<Rightarrow>
     partials \<Rightarrow> partials \<Rightarrow> partials \<Rightarrow> partials \<Rightarrow> partials \<Rightarrow> partials \<Rightarrow>
     error + (coords \<times> coords \<times> coords) \<times> (partials \<times> partials \<times> partials)"
  world_to_cam ::
    "camera_info \<Rightarrow> coords \<Rightarrow> coords \<Rightarrow> coords \<Rightarrow> coords \<Rightarrow> coords \<Rightarrow> coords \<Rightarrow>
     error + coords \<times> coords \<times> coords"
  world_to_cam_d ::
    "camera_info \<Rightarrow> coords \<Rightarrow> coords \<Rightarrow> coords \<Rightarrow> coords \<Rightarrow> coords \<Rightarrow> coords \<Rightarrow>
     partials \<Rightarrow> partials \<Rightarrow> partials \<Rightarrow> partials \<Rightarrow> partials \<Rightarrow> partials \<Rightarrow>
     error + (coords \<times> coords \<times> coords) \<times> (partials \<times> partials \<times> partials)"
  cam_to_sensor ::
    "camera_info \<Rightarrow> coords \<Rightarrow> coords \<Rightarrow> coords \<Rightarrow> coords \<Rightarrow> coords \<Rightarrow>
     error + coords \<times> coords"
  cam_to_sensor_d ::
    "camera_info \<Rightarrow> coords \<Rightarrow> coords \<Rightarrow> coords \<Rightarrow> coords \<Rightarrow> coords \<Rightarrow>
     partials \<Rightarrow> partials \<Rightarrow> partials \<Rightarrow> partials \<Rightarrow> partials \<Rightarrow>
     error + (coords \<times> coords) \<times> (partials \<times> partials)"
  sensor_to_image ::
    "camera_info \<Rightarrow> coords \<Rightarrow> coords \<Rightarrow> coords \<Rightarrow> coords \<Rightarrow> error + coords \<times> coords"
  sensor_to_image_d ::
    "camera_info \<Rightarrow> coords \<Rightarrow> coords \<Rightarrow> coords \<Rightarrow> coords \<Rightarrow>
     partials \<Rightarrow> partials \<Rightarrow> partials \<Rightarrow> partials \<Rightarrow>
     error + (coords \<times> coords) \<times> (partials \<times> partials)"

text \<open>Sequencing of calls that may throw.\<close>

definition and_then :: "error + 'a \<Rightarrow> ('a \<Rightarrow> error + 'b) \<Rightarrow> error + 'b" where
  "and_then r f = (case r of Inl e \<Rightarrow> Inl e | Inr v \<Rightarrow> f v)"

text \<open>
  The argument checks of \<open>camera_to_camera_projection\<close> (lines 732-757). \<open>source_id < 0\<close>
  is never true of a \<open>size_t\<close>; the test \<open>source_id == target_id\<close> is commented out in the
  source and is not part of the checks.
\<close>

definition camera_to_camera_projection_checks ::
  "camera_system \<Rightarrow> nat \<Rightarrow> nat \<Rightarrow> coords \<Rightarrow> coords \<Rightarrow> coords \<Rightarrow> coords \<Rightarrow> real list \<Rightarrow>
   partials \<Rightarrow> partials \<Rightarrow> real list \<Rightarrow> error + unit" where
  "camera_to_camera_projection_checks st source_id target_id img_source_x img_source_y
       img_target_x img_target_y params img_target_dx img_target_dy rigid_body_params =
     (let vec_size = length img_source_x;
          num_params = length img_target_dx;
          has_derivatives = num_params > 0;
          has_rigid_body = length rigid_body_params > 0
      in
      if length params \<noteq> 3 then Inl (Runtime_Error [])
      else if source_id \<ge> num_cameras st then Inl (Runtime_Error ''invalid source id'')
      else if target_id \<ge> num_cameras st then Inl (Runtime_Error ''invalid target id'')
      else if length img_source_y \<noteq> vec_size then Inl (Runtime_Error [])
      else if length img_target_x \<noteq> vec_size then Inl (Runtime_Error [])
      else if length img_target_y \<noteq> vec_size then Inl (Runtime_Error [])
      else if has_derivatives \<and> has_rigid_body \<and> num_params \<noteq> 6 then Inl (Runtime_Error [])
      else if has_derivatives \<and> \<not> has_rigid_body \<and> num_params \<noteq> 3 then Inl (Runtime_Error [])
      else if has_derivatives \<and> length img_target_dy \<noteq> num_params then Inl (Runtime_Error [])
      else if has_derivatives \<and>
              list_ex (\<lambda>i. length (img_target_dx ! i) \<noteq> vec_size
                         \<or> length (img_target_dy ! i) \<noteq> vec_size) [0..<num_params]
           then Inl (Runtime_Error [])
      else if has_rigid_body \<and> length rigid_body_params \<noteq> 6
           then Inl (Runtime_Error ''invalid rigid body parameter vector size'')
      else Inr ())"

text \<open>
  The target camera's stages with derivatives (lines 798-801). \<open>cam\<close>, \<open>cam_d\<close>,
  \<open>sensor\<close> are the temporaries as the source leg left them; the world-frame partials
  \<open>d\<close> are read by \<open>world_to_cam\<close> and their x and y rows are then reused as the output
  of \<open>cam_to_sensor\<close>.
\<close>

definition target_leg_d ::
  "camera_ops \<Rightarrow> camera_info \<Rightarrow> coords \<times> coords \<times> coords \<Rightarrow> coords \<times> coords \<times> coords \<Rightarrow>
   partials \<times> partials \<times> partials \<Rightarrow> partials \<times> partials \<times> partials \<Rightarrow> coords \<times> coords \<Rightarrow>
   coords \<Rightarrow> coords \<Rightarrow> partials \<Rightarrow> partials \<Rightarrow>
   error + (coords \<times> coords) \<times> (partials \<times> partials)" where
  "target_leg_d ops tgt world cam d cam_d sensor img_target_x img_target_y
       img_target_dx img_target_dy =
     and_then
       (world_to_cam_d ops tgt (fst world) (fst (snd world)) (snd (snd world))
          (fst cam) (fst (snd cam)) (snd (snd cam))
          (fst d) (fst (snd d)) (snd (snd d))
          (fst cam_d) (fst (snd cam_d)) (snd (snd cam_d)))
       (\<lambda>r1.
          and_then
            (cam_to_sensor_d ops tgt (fst (fst r1)) (fst (snd (fst r1))) (snd (snd (fst r1)))
               (fst sensor) (snd sensor)
               (fst (snd r1)) (fst (snd (snd r1))) (snd (snd (snd r1)))
               (fst d) (fst (snd d)))
            (\<lambda>r2.
               sensor_to_image_d ops tgt (fst (fst r2)) (snd (fst r2)) img_target_x img_target_y
                 (fst (snd r2)) (snd (snd r2)) img_target_dx img_target_dy))"

text \<open>The target camera's stages of the path without derivatives (lines 811-813).\<close>

definition target_leg ::
  "camera_ops \<Rightarrow> camera_info \<Rightarrow> coords \<times> coords \<times> coords \<Rightarrow> coords \<times> coords \<times> coords \<Rightarrow>
   coords \<times> coords \<Rightarrow> coords \<Rightarrow> coords \<Rightarrow> error + coords \<times> coords" where
  "target_leg ops tgt world cam sensor img_target_x img_target_y =
     and_then
       (world_to_cam ops tgt (fst world) (fst (snd world)) (snd (snd world))
          (fst cam) (fst (snd cam)) (snd (snd cam)))
       (\<lambda>cam2.
          and_then
            (cam_to_sensor ops tgt (fst cam2) (fst (snd cam2)) (snd (snd cam2))
               (fst sensor) (snd sensor))
            (\<lambda>sensor2.
               sensor_to_image ops tgt (fst sensor2) (snd sensor2) img_target_x img_target_y))"

text \<open>
  The traversal of \<open>camera_to_camera_projection\<close> after its checks (lines 759-814).
  All temporaries are zero-filled vectors of the batch size; the derivative temporaries
  have \<open>num_params\<close> zero rows when derivatives are requested and are empty otherwise.
  With a rigid body and derivatives (lines 787-791) the source camera's stages are the
  overloads without derivative outputs, and the world-frame partials are the rows that
  \<open>rot_trans_3D\<close> writes.
\<close>

type_synonym projection_out = "(coords \<times> coords) \<times> (partials \<times> partials)"

definition projection_traverse ::
  "camera_ops \<Rightarrow> camera_system \<Rightarrow> nat \<Rightarrow> nat \<Rightarrow> coords \<Rightarrow> coords \<Rightarrow> coords \<Rightarrow> coords \<Rightarrow>
   real list \<Rightarrow> partials \<Rightarrow> partials \<Rightarrow> real list \<Rightarrow> camera_system \<times> (error + projection_out)" where
  "projection_traverse ops st source_id target_id img_source_x img_source_y
       img_target_x img_target_y params img_target_dx img_target_dy rigid_body_params =
     (let vec_size = length img_source_x;
          num_params = length img_target_dx;
          has_derivatives = num_params > 0;
          has_rigid_body = length rigid_body_params > 0;
          zeros = replicate vec_size 0;
          zero_rows = (if has_derivatives then replicate num_params (replicate vec_size 0) else []);
          src = cameras st ! source_id;
          tgt = cameras st ! target_id
      in
      case image_to_sensor ops src img_source_x img_source_y zeros zeros of
        Inl e \<Rightarrow> (st, Inl e)
      | Inr sensor \<Rightarrow>
          if has_derivatives then
            (if has_rigid_body then
               (case and_then
                       (sensor_to_cam ops src (fst sensor) (snd sensor) zeros zeros zeros params)
                       (\<lambda>cam. and_then
                          (cam_to_world ops src (fst cam) (fst (snd cam)) (snd (snd cam))
                             zeros zeros zeros)
                          (\<lambda>rb_world. Inr (cam, rb_world))) of
                  Inl e \<Rightarrow> (st, Inl e)
                | Inr cw \<Rightarrow>
                    (let r = rot_trans_3D st (fst (snd cw)) (fst (snd (snd cw))) (snd (snd (snd cw)))
                               zeros zeros zeros rigid_body_params zero_rows zero_rows zero_rows
                     in case snd r of
                          Inl e \<Rightarrow> (fst r, Inl e)
                        | Inr out \<Rightarrow>
                            (fst r,
                             target_leg_d ops tgt
                               (fst out, fst (snd out), fst (snd (snd out)))
                               (fst cw)
                               (snd (snd (snd out)))
                               (zero_rows, zero_rows, zero_rows)
                               sensor img_target_x img_target_y img_target_dx img_target_dy)))
             else
               (st,
                and_then
                  (sensor_to_cam_d ops src (fst sensor) (snd sensor) zeros zeros zeros params
                     zero_rows zero_rows zero_rows)
                  (\<lambda>r1. and_then
                     (cam_to_world_d ops src
                        (fst (fst r1)) (fst (snd (fst r1))) (snd (snd (fst r1)))
                        zeros zeros zeros
                        (fst (snd r1)) (fst (snd (snd r1))) (snd (snd (snd r1)))
                        zero_rows zero_rows zero_rows)
                     (\<lambda>r2. target_leg_d ops tgt (fst r2) (fst r1) (snd r2) (snd r1)
                              sensor img_target_x img_target_y img_target_dx img_target_dy))))
          else
            (case sensor_to_cam ops src (fst sensor) (snd sensor) zeros zeros zeros params of
               Inl e \<Rightarrow> (st, Inl e)
             | Inr cam \<Rightarrow>
                 if has_rigid_body then
                   (case cam_to_world ops src (fst cam) (fst (snd cam)) (snd (snd cam))
                           zeros zeros zeros of
                      Inl e \<Rightarrow> (st, Inl e)
                    | Inr rb_world \<Rightarrow>
                        (let r = rot_trans_3D_coords st
                                   (fst rb_world) (fst (snd rb_world)) (snd (snd rb_world))
                                   zeros zeros zeros rigid_body_params
                         in case snd r of
                              Inl e \<Rightarrow> (fst r, Inl e)
                            | Inr world \<Rightarrow>
                                (fst r,
                                 and_then
                                   (target_leg ops tgt world cam sensor img_target_x img_target_y)
                                   (\<lambda>img. Inr (img, (img_target_dx, img_target_dy))))))
                 else
                   (st,
                    and_then
                      (cam_to_world ops src (fst cam) (fst (snd cam)) (snd (snd cam))
                         zeros zeros zeros)
                      (\<lambda>world. and_then
                         (target_leg ops tgt world cam sensor img_target_x img_target_y)
                         (\<lambda>img. Inr (img, (img_target_dx, img_target_dy)))))))"

text \<open>\<open>Camera_System::camera_to_camera_projection\<close>: the checks, then the traversal.\<close>

definition camera_to_camera_projection ::
  "camera_ops \<Rightarrow> camera_system \<Rightarrow> nat \<Rightarrow> nat \<Rightarrow> coords \<Rightarrow> coords \<Rightarrow> coords \<Rightarrow> coords \<Rightarrow>
   real list \<Rightarrow> partials \<Rightarrow> partials \<Rightarrow> real list \<Rightarrow> camera_system \<times> (error + projection_out)" where
  "camera_to_camera_projection ops st source_id target_id img_source_x img_source_y
       img_target_x img_target_y params img_target_dx img_target_dy rigid_body_params =
     (case camera_to_camera_projection_checks st source_id target_id img_source_x img_source_y
             img_target_x img_target_y params img_target_dx img_target_dy rigid_body_params of
        Inl e \<Rightarrow> (st, Inl e)
      | Inr _ \<Rightarrow>
          projection_traverse ops st source_id target_id img_source_x img_source_y
            img_target_x img_target_y params img_target_dx img_target_dy rigid_body_params)"


subsection \<open>Concrete inputs\<close>

text \<open>
  An optical model for the concrete evaluations below: every stage copies its input
  coordinates and partials through to its outputs.
\<close>

definition copy_through_ops :: camera_ops where
  "copy_through_ops =
     \<lparr> image_to_sensor = (\<lambda>c x y sx sy. Inr (x, y)),
       sensor_to_cam = (\<lambda>c sx sy x y z p. Inr (sx, sy, map2 (+) sx sy)),
       sensor_to_cam_d =
         (\<lambda>c sx sy x y z p dx dy dz. Inr ((sx, sy, map2 (+) sx sy), (dx, dy, dz))),
       cam_to_world = (\<lambda>c x y z wx wy wz. Inr (x, y, z)),
       cam_to_world_d = (\<lambda>c x y z wx wy wz cdx cdy cdz dx dy dz. Inr ((x, y, z), (cdx, cdy, cdz))),
       world_to_cam = (\<lambda>c wx wy wz x y z. Inr (wx, wy, wz)),
       world_to_cam_d = (\<lambda>c wx wy wz x y z dx dy dz cdx cdy cdz. Inr ((wx, wy, wz), (dx, dy, dz))),
       cam_to_sensor = (\<lambda>c x y z sx sy. Inr (x, y)),
       cam_to_sensor_d = (\<lambda>c x y z sx sy cdx cdy cdz dx dy. Inr ((x, y), (cdx, cdy))),
       sensor_to_image = (\<lambda>c sx sy ix iy. Inr (sx, sy)),
       sensor_to_image_d = (\<lambda>c sx sy ix iy dx dy idx idy. Inr ((sx, sy), (dx, dy))) \<rparr>"


definition sample_camera :: camera_info where
  "sample_camera =
     \<lparr> cam_id = ''CAMERA 0'', image_height = 500, image_width = 1000, pixel_depth = 0,
       lens = [], comments = [], lens_distortion_model = K1R1_K2R2_K3R3,
       intrinsics = replicate 8 0, tx = 0, ty = 0, tz = 0,
       rotation_matrix = [[1, 0, 0], [0, 1, 0], [0, 0, 1]] \<rparr>"

definition two_camera_system :: camera_system where
  "two_camera_system = Camera_System \<lparr> cameras := [sample_camera, sample_camera] \<rparr>"

text \<open>
  The caches of a fresh object after \<open>initialize_rot_trans_3D\<close> with partials, all six
  parameters zero.
\<close>

definition zero_angle_state :: camera_system where
  "zero_angle_state = Camera_System
     \<lparr> rot_trans_3D_x := [1, 0, 0, 0], rot_trans_3D_y := [0, 1, 0, 0],
       rot_trans_3D_z := [0, 0, 1, 0],
       rot_trans_3D_dx := [[0, 0, 0, 0], [0, 0, 1, 0], [0, - 1, 0, 0],
                           [0, 0, 0, 0], [0, 0, 0, 0], [0, 0, 0, 0]],
       rot_trans_3D_dy := [[0, 0, - 1, 0], [0, 0, 0, 0], [1, 0, 0, 0],
                           [0, 0, 0, 0], [0, 0, 0, 0], [0, 0, 0, 0]],
       rot_trans_3D_dz := [[0, 1, 0, 0], [- 1, 0, 0, 0], [0, 0, 0, 0],
                           [0, 0, 0, 0], [0, 0, 0, 0], [0, 0, 0, 0]] \<rparr>"

text \<open>
  The rotation matrix of the spec, \<open>R = Rz(g) Ry(b) Rx(a)\<close> in closed form, row by row.
\<close>

definition spec_rotation :: "real \<Rightarrow> real \<Rightarrow> real \<Rightarrow> real list list" where
  "spec_rotation a b g =
     [[cos b * cos g, sin a * sin b * cos g - cos a * sin g, cos a * sin b * cos g + sin a * sin g],
      [cos b * sin g, sin a * sin b * sin g + cos a * cos g, cos a * sin b * sin g - sin a * cos g],
      [- sin b, sin a * cos b, cos a * cos b]]"

text \<open>
  The shape of the rotation caches in every object that the constructor and
  \<open>initialize_rot_trans_3D\<close> produce: six rows of partials per coordinate, and all
  vectors of size 4 once the first one is.
\<close>

definition cache_shape :: "camera_system \<Rightarrow> bool" where
  "cache_shape st =
     (length (rot_trans_3D_dx st) = 6 \<and> length (rot_trans_3D_dy st) = 6
      \<and> length (rot_trans_3D_dz st) = 6
      \<and> (if length (rot_trans_3D_x st) = 4
          then length (rot_trans_3D_y st) = 4 \<and> length (rot_trans_3D_z st) = 4
               \<and> list_all (\<lambda>r. length r = 4)
                    (rot_trans_3D_dx st @ rot_trans_3D_dy st @ rot_trans_3D_dz st)
          else True))"

text \<open>The members of the object other than the six rotation caches.\<close>

definition persistent_fields ::
  "camera_system \<Rightarrow>
   camera_info list \<times> nat \<times> real list \<times> real list list \<times> system_type_3d \<times> bool \<times> bool" where
  "persistent_fields st =
     (cameras st, max_num_cameras_allowed st, user_6x1_trans st, user_4x4_trans st,
      sys_type st, has_6_transform st, has_4x4_transform st)"

subsection \<open>Calibration files: what the parser is given\<close>

text \<open>
  \<open>Teuchos::ParameterList\<close> (a library outside the repository) as a list of named
  entries; an entry is a typed value or a sublist. \<open>isParameter\<close> holds of every entry,
  sublists included; \<open>get<T>\<close> throws on an absent name and on an entry of another type.
\<close>

datatype pentry =
  PString string | PDouble real | PInt int | PBool bool | PSublist "(string \<times> pentry) list"

type_synonym parameter_list = "(string \<times> pentry) list"

definition isParameter :: "parameter_list \<Rightarrow> string \<Rightarrow> bool" where
  "isParameter pl name = (map_of pl name \<noteq> None)"

definition isSublist :: "parameter_list \<Rightarrow> string \<Rightarrow> bool" where
  "isSublist pl name = (case map_of pl name of Some (PSublist l) \<Rightarrow> True | _ \<Rightarrow> False)"

definition get_sublist :: "parameter_list \<Rightarrow> string \<Rightarrow> parameter_list" where
  "get_sublist pl name = (case map_of pl name of Some (PSublist l) \<Rightarrow> l | _ \<Rightarrow> [])"

definition get_string :: "parameter_list \<Rightarrow> string \<Rightarrow> error + string" where
  "get_string pl name =
     (case map_of pl name of
        None \<Rightarrow> Inl (Invalid_Parameter_Name name)
      | Some (PString s) \<Rightarrow> Inr s
      | Some _ \<Rightarrow> Inl (Invalid_Parameter_Type name))"

definition get_double :: "parameter_list \<Rightarrow> string \<Rightarrow> error + real" where
  "get_double pl name =
     (case map_of pl name of
        None \<Rightarrow> Inl (Invalid_Parameter_Name name)
      | Some (PDouble v) \<Rightarrow> Inr v
      | Some _ \<Rightarrow> Inl (Invalid_Parameter_Type name))"

definition get_int :: "parameter_list \<Rightarrow> string \<Rightarrow> error + int" where
  "get_int pl name =
     (case map_of pl name of
        None \<Rightarrow> Inl (Invalid_Parameter_Name name)
      | Some (PInt v) \<Rightarrow> Inr v
      | Some _ \<Rightarrow> Inl (Invalid_Parameter_Type name))"

text \<open>
  What the source uses and the sources do not hold, as parameters of the model: the C
  library's \<open>strtod\<close>, Teuchos' \<open>fromStringToArray\<close>, the string conversions of the enums,
  the names of the intrinsic parameters in enum order (\<open>Camera::to_string\<close>, their number
  is \<open>MAX_CAM_INTRINSIC_PARAM\<close>), the default \<open>Camera_Info\<close>,
  \<open>Camera_Info::set_rotation_matrix\<close> for three Euler angles, the validity test of the
  \<open>Camera\<close> constructor (\<open>None\<close> when it accepts), the parameter names that the header
  declares as constants, and whether the build drops \<open>assert\<close> (\<open>NDEBUG\<close>).
\<close>

record environment =
  strtod :: "string \<Rightarrow> real"
  from_string_to_int_array :: "string \<Rightarrow> error + int list"
  from_string_to_scalar_array :: "string \<Rightarrow> error + real list"
  string_to_system_type_3d :: "string \<Rightarrow> error + system_type_3d"
  string_to_lens_distortion_model :: "string \<Rightarrow> error + lens_distortion_model"
  intrinsic_names :: "string list"
  default_camera_info :: camera_info
  set_rotation_matrix :: "real \<Rightarrow> real \<Rightarrow> real \<Rightarrow> camera_info \<Rightarrow> camera_info"
  camera_check :: "camera_info \<Rightarrow> error option"
  DICe_XML_Calibration_File :: string
  system_type_3D :: string
  rotation_3x3_matrix :: string
  user_6_param_transform :: string
  user_4x4_param_transform :: string
  ndebug :: bool

text \<open>
  A calibration file as the function meets it: its name, what
  \<open>Teuchos::updateParametersFromXmlFile\<close> makes of it (a parameter list, or an exception),
  whether the stream opened on it is good, and the token vectors that the successive calls
  of \<open>tokenize_line\<close> return until end of file (\<open>tokenize_line\<close> is not part of the
  sources; a file is read in one dialect only, so one sequence stands for both delimiter
  sets).
\<close>

record calibration_file =
  file_name :: string
  teuchos_parameters :: "error + parameter_list"
  stream_good :: bool
  token_lines :: "string list list"

subsection \<open>Text helpers\<close>

text \<open>\<open>operator<<\<close> of a stream for an unsigned and a signed integer.\<close>

fun string_of_nat :: "nat \<Rightarrow> string" where
  "string_of_nat n =
     (if n < 10 then [''0123456789'' ! n]
      else string_of_nat (n div 10) @ [''0123456789'' ! (n mod 10)])"

declare string_of_nat.simps [simp del]

definition string_of_int :: "int \<Rightarrow> string" where
  "string_of_int k = (if k < 0 then CHR ''-'' # string_of_nat (nat (- k)) else string_of_nat (nat k))"

text \<open>
  \<open>int_t\<close> is the 32-bit \<open>int\<close> (its \<open>typedef\<close> is in a header that is not part of the
  sources). A value of that type is held as an integer between \<open>INT_T_MIN\<close> and
  \<open>INT_T_MAX\<close>; an operation whose result would leave that range has undefined behaviour
  in C++ and is an error of the model.
\<close>

definition INT_T_MIN :: int where "INT_T_MIN = - 2147483648"
definition INT_T_MAX :: int where "INT_T_MAX = 2147483647"

definition in_int_t :: "int \<Rightarrow> bool" where
  "in_int_t k = (INT_T_MIN \<le> k \<and> k \<le> INT_T_MAX)"

text \<open>
  The decimal number at the start of a text, as \<open>std::atoi\<close> and \<open>strtol\<close> scan it: leading
  white space, an optional sign, then decimal digits up to the first other character; 0
  when there is no digit.
\<close>

definition is_space :: "char \<Rightarrow> bool" where
  "is_space c = (c \<in> set [CHR '' '', CHR 0x09, CHR 0x0A, CHR 0x0B, CHR 0x0C, CHR 0x0D])"

definition is_digit :: "char \<Rightarrow> bool" where
  "is_digit c = (c \<in> set ''0123456789'')"

definition digit_value :: "char \<Rightarrow> nat" where
  "digit_value c = length (takeWhile (\<lambda>d. d \<noteq> c) ''0123456789'')"

fun digits_value :: "nat \<Rightarrow> string \<Rightarrow> nat" where
  "digits_value acc [] = acc"
| "digits_value acc (c # cs) =
     (if is_digit c then digits_value (10 * acc + digit_value c) cs else acc)"

definition decimal_value :: "string \<Rightarrow> int" where
  "decimal_value s =
     (case dropWhile is_space s of
        [] \<Rightarrow> 0
      | c # cs \<Rightarrow>
          if c = CHR ''-'' then - int (digits_value 0 cs)
          else if c = CHR ''+'' then int (digits_value 0 cs)
          else int (digits_value 0 (c # cs)))"

text \<open>
  \<open>std::atoi\<close> returns an \<open>int\<close>: the decimal number at the start of the text when an
  \<open>int\<close> can hold it; the behaviour is undefined when it cannot.
\<close>

definition atoi :: "string \<Rightarrow> error + int" where
  "atoi s =
     (if in_int_t (decimal_value s) then Inr (decimal_value s)
      else Inl (Undefined_Behaviour ''atoi''))"

text \<open>
  Conversion of a \<open>double\<close> to \<open>int_t\<close> (the assignments of lines 394 and 397):
  truncation towards zero when \<open>int_t\<close> can hold the truncated value; the behaviour is
  undefined when it cannot.
\<close>

definition to_int_t :: "real \<Rightarrow> error + int" where
  "to_int_t r =
     (let truncated = (if 0 \<le> r then \<lfloor>r\<rfloor> else \<lceil>r\<rceil>)
      in if in_int_t truncated then Inr truncated
         else Inl (Undefined_Behaviour ''double to int_t''))"

text \<open>\<open>s.find(p) != std::string::npos\<close>.\<close>

definition found_in :: "string \<Rightarrow> string \<Rightarrow> bool" where
  "found_in p s = list_ex (\<lambda>k. take (length p) (drop k s) = p) [0..<Suc (length s)]"

text \<open>A loop whose body may throw: the first exception ends it.\<close>

fun for_each :: "'a list \<Rightarrow> ('a \<Rightarrow> 's \<Rightarrow> error + 's) \<Rightarrow> 's \<Rightarrow> error + 's" where
  "for_each [] body s = Inr s"
| "for_each (x # xs) body s =
     (case body x s of Inl e \<Rightarrow> Inl e | Inr s' \<Rightarrow> for_each xs body s')"

text \<open>An unchecked \<open>v[i]\<close> read: undefined behaviour past the end.\<close>

definition element_at :: "'a list \<Rightarrow> nat \<Rightarrow> error + 'a" where
  "element_at v i = (if i < length v then Inr (v ! i) else Inl (Undefined_Behaviour ''operator[]''))"

text \<open>\<open>m(r, c) = v\<close> on a matrix held as a list of rows.\<close>

definition set_entry :: "real list list \<Rightarrow> nat \<Rightarrow> nat \<Rightarrow> real \<Rightarrow> real list list" where
  "set_entry m r c v = m[r := (m ! r)[c := v]]"

text \<open>
  Modelled from the spec: the enumerators of \<open>Cam_Intrinsic_Param\<close> are declared in a
  header that is not part of the sources; the spec names the indices in the order CX, CY,
  FX, FY, FS, K1, K2, K3, ...  \<open>param_order_int\<close> is the vector of lines 287 and 340.
\<close>

definition CX :: nat where "CX = 0"
definition CY :: nat where "CY = 1"
definition FX :: nat where "FX = 2"
definition FY :: nat where "FY = 3"
definition FS :: nat where "FS = 4"
definition K1 :: nat where "K1 = 5"
definition K2 :: nat where "K2 = 6"
definition K3 :: nat where "K3 = 7"

definition param_order_int :: "nat list" where
  "param_order_int = [CX, CY, FX, FY, FS, K1, K2, K3]"

subsection \<open>The DICe XML dialect (lines 90-266)\<close>

text \<open>Line 108: the name of the camera sublist is built with a trailing \<open>std::endl\<close>.\<close>

definition camera_sublist_id :: "nat \<Rightarrow> string" where
  "camera_sublist_id i = ''CAMERA '' @ string_of_nat i @ [CHR 0x0A]"

text \<open>An optional \<open>double\<close> parameter: read when \<open>isParameter\<close> holds.\<close>

definition optional_double :: "parameter_list \<Rightarrow> string \<Rightarrow> error + real option" where
  "optional_double pl name =
     (if isParameter pl name then and_then (get_double pl name) (\<lambda>v. Inr (Some v))
      else Inr None)"

text \<open>Lines 113-127: the two required parameters, the distortion model, height and width.\<close>

definition read_required :: "environment \<Rightarrow> parameter_list \<Rightarrow> error + camera_info" where
  "read_required env camParams =
     (if \<not> isParameter camParams ''IMAGE_HEIGHT_WIDTH''
      then Inl (Runtime_Error ''calibration file missing IMAGE_HEIGHT_WIDTH'')
      else if \<not> isParameter camParams ''LENS_DISTORTION_MODEL''
      then Inl (Runtime_Error ''calibration file missing LENS_DISTORITION_MODEL'')
      else
        and_then (get_string camParams ''LENS_DISTORTION_MODEL'') (\<lambda>model_text.
        and_then (string_to_lens_distortion_model env model_text) (\<lambda>model.
        and_then (get_string camParams ''IMAGE_HEIGHT_WIDTH'') (\<lambda>height_width_text.
        and_then (from_string_to_int_array env height_width_text) (\<lambda>tArray.
        and_then (element_at tArray 0) (\<lambda>h.
        and_then (element_at tArray 1) (\<lambda>w.
          Inr ((default_camera_info env)
                 \<lparr> lens_distortion_model := model, image_height := h, image_width := w \<rparr>))))))))"

text \<open>Lines 129-135: the loop over the intrinsic parameters.\<close>

definition read_intrinsics :: "environment \<Rightarrow> parameter_list \<Rightarrow> camera_info \<Rightarrow> error + camera_info" where
  "read_intrinsics env camParams =
     for_each [0..<length (intrinsic_names env)] (\<lambda>i info.
       if isParameter camParams (intrinsic_names env ! i)
       then and_then (get_double camParams (intrinsic_names env ! i))
              (\<lambda>v. Inr (info\<lparr> intrinsics := (intrinsics info)[i := v] \<rparr>))
       else Inr info)"

text \<open>Lines 137-148: the extrinsic translations.\<close>

definition read_translations :: "parameter_list \<Rightarrow> camera_info \<Rightarrow> error + camera_info" where
  "read_translations camParams info =
     and_then (optional_double camParams ''TX'') (\<lambda>x.
     and_then (optional_double camParams ''TY'') (\<lambda>y.
     and_then (optional_double camParams ''TZ'') (\<lambda>z.
       Inr (info\<lparr> tx := (case x of None \<Rightarrow> tx info | Some v \<Rightarrow> v),
                   ty := (case y of None \<Rightarrow> ty info | Some v \<Rightarrow> v),
                   tz := (case z of None \<Rightarrow> tz info | Some v \<Rightarrow> v) \<rparr>))))"

text \<open>Lines 149-170: the Euler angles; the result carries \<open>has_eulers\<close>.\<close>

definition read_eulers ::
  "environment \<Rightarrow> parameter_list \<Rightarrow> camera_info \<Rightarrow> error + bool \<times> camera_info" where
  "read_eulers env camParams info =
     and_then (optional_double camParams ''ALPHA'') (\<lambda>a.
     and_then (optional_double camParams ''BETA'') (\<lambda>b.
     and_then (optional_double camParams ''GAMMA'') (\<lambda>g.
       let has_eulers = (a \<noteq> None \<or> b \<noteq> None \<or> g \<noteq> None) in
       Inr (has_eulers,
            if has_eulers
            then set_rotation_matrix env (case a of None \<Rightarrow> 0 | Some v \<Rightarrow> v)
                   (case b of None \<Rightarrow> 0 | Some v \<Rightarrow> v) (case g of None \<Rightarrow> 0 | Some v \<Rightarrow> v) info
            else info))))"

text \<open>Lines 172-197: the identifier, the pixel depth, the lens and the comments.\<close>

definition read_descriptions ::
  "parameter_list \<Rightarrow> nat \<Rightarrow> camera_info \<Rightarrow> error + camera_info" where
  "read_descriptions camParams i info =
     and_then (if isParameter camParams ''CAMERA_ID'' then get_string camParams ''CAMERA_ID''
               else Inr (''CAMERA '' @ string_of_nat i)) (\<lambda>camera_id.
     and_then (if isParameter camParams ''PIXEL_DEPTH'' then get_int camParams ''PIXEL_DEPTH''
               else Inr (pixel_depth info)) (\<lambda>depth.
     and_then (if isParameter camParams ''LENS'' then get_string camParams ''LENS''
               else Inr (lens info)) (\<lambda>lens_text.
     and_then (if isParameter camParams ''COMMENTS'' then get_string camParams ''COMMENTS''
               else Inr (comments info)) (\<lambda>comments_text.
       Inr (info\<lparr> cam_id := camera_id, pixel_depth := depth, lens := lens_text,
                   comments := comments_text \<rparr>)))))"

text \<open>
  Lines 199-214: the 3x3 rotation matrix. The test of line 207 throws when the row
  parameter is present.
\<close>

definition read_rotation_matrix ::
  "environment \<Rightarrow> parameter_list \<Rightarrow> bool \<Rightarrow> camera_info \<Rightarrow> error + camera_info" where
  "read_rotation_matrix env camParams has_eulers info =
     (if isSublist camParams (rotation_3x3_matrix env) then
        (if has_eulers
         then Inl (Runtime_Error ''cannot specify euler angles and rotation matrix'')
         else
           for_each [0..<3] (\<lambda>j info.
             if isParameter (get_sublist camParams (rotation_3x3_matrix env))
                  (''ROW '' @ string_of_nat j)
             then Inl (Runtime_Error ''cal file missing row for camera 3x3 rotation matrix'')
             else
               and_then (get_string (get_sublist camParams (rotation_3x3_matrix env))
                           (''ROW '' @ string_of_nat j)) (\<lambda>row_text.
               and_then (from_string_to_scalar_array env row_text) (\<lambda>tArray.
                 for_each [0..<3] (\<lambda>i info.
                   and_then (element_at tArray i) (\<lambda>v.
                     Inr (info\<lparr> rotation_matrix := set_entry (rotation_matrix info) j i v \<rparr>)))
                   info)))
             info)
      else Inr info)"

text \<open>Lines 111-216 for one camera sublist: the \<open>Camera_Info\<close> handed to the constructor.\<close>

definition read_camera :: "environment \<Rightarrow> parameter_list \<Rightarrow> nat \<Rightarrow> error + camera_info" where
  "read_camera env camParams i =
     and_then (read_required env camParams) (\<lambda>info1.
     and_then (read_intrinsics env camParams info1) (\<lambda>info2.
     and_then (read_translations camParams info2) (\<lambda>info3.
     and_then (read_eulers env camParams info3) (\<lambda>he.
     and_then (read_descriptions camParams i (snd he)) (\<lambda>info4.
     and_then (read_rotation_matrix env camParams (fst he) info4) (\<lambda>info5.
       case camera_check env info5 of Some e \<Rightarrow> Inl e | None \<Rightarrow> Inr info5))))))"

text \<open>
  Lines 105-221: the loop over the camera indices. The test of line 106 comes before the
  look-up of the sublist.
\<close>

function read_cameras ::
  "environment \<Rightarrow> parameter_list \<Rightarrow> nat \<Rightarrow> nat \<Rightarrow> camera_info list \<Rightarrow> error + camera_info list" where
  "read_cameras env sys_params max_cams i cams =
     (if i < max_cams then
        (if i = max_cams - 1
         then Inl (Runtime_Error ''too many cameras defined in the xml calibration file'')
         else if isSublist sys_params (camera_sublist_id i) then
           (case read_camera env (get_sublist sys_params (camera_sublist_id i)) i of
              Inl e \<Rightarrow> Inl e
            | Inr info \<Rightarrow> read_cameras env sys_params max_cams (Suc i) (cams @ [info]))
         else Inr cams)
      else Inr cams)"
  by pat_completeness auto
termination
  by (relation "measure (\<lambda>(env, sys_params, max_cams, i, cams). max_cams - i)") auto

declare read_cameras.simps [simp del]

text \<open>Lines 224-233: the user's six-parameter transform.\<close>

definition read_6_transform ::
  "environment \<Rightarrow> parameter_list \<Rightarrow> camera_system \<Rightarrow> error + camera_system" where
  "read_6_transform env sys_params st =
     (if isParameter sys_params (user_6_param_transform env) then
        and_then (get_string sys_params (user_6_param_transform env)) (\<lambda>param_text.
        and_then (from_string_to_scalar_array env param_text) (\<lambda>tArray.
          if \<not> ndebug env \<and> length tArray \<noteq> 6
          then Inl (Assertion_Failed ''tArray.size()==6'')
          else
            for_each [0..<6] (\<lambda>i st.
              and_then (element_at tArray i) (\<lambda>v.
                Inr (st\<lparr> user_6x1_trans := (user_6x1_trans st)[i := v] \<rparr>)))
              (st\<lparr> has_6_transform := True \<rparr>)))
      else Inr st)"

text \<open>Lines 235-249: the user's 4x4 transform.\<close>

definition read_4x4_transform ::
  "environment \<Rightarrow> parameter_list \<Rightarrow> camera_system \<Rightarrow> error + camera_system" where
  "read_4x4_transform env sys_params st =
     (if isSublist sys_params (user_4x4_param_transform env) then
        for_each [0..<4] (\<lambda>j st.
          and_then (get_string (get_sublist sys_params (user_4x4_param_transform env))
                      (''ROW '' @ string_of_nat j)) (\<lambda>row_text.
          and_then (from_string_to_scalar_array env row_text) (\<lambda>tArray.
            if \<not> ndebug env \<and> length tArray \<noteq> 4
            then Inl (Assertion_Failed ''tArray.size()==4'')
            else
              for_each [0..<4] (\<lambda>i st.
                and_then (element_at tArray i) (\<lambda>v.
                  Inr (st\<lparr> user_4x4_trans := set_entry (user_4x4_trans st) j i v \<rparr>)))
                st)))
          (st\<lparr> has_4x4_transform := True \<rparr>)
      else Inr st)"

text \<open>Lines 90-266: a file that the Teuchos parser has read into parameters.\<close>

definition read_dice_xml ::
  "environment \<Rightarrow> parameter_list \<Rightarrow> camera_system \<Rightarrow> error + camera_system" where
  "read_dice_xml env sys_params st =
     (if \<not> isParameter sys_params (DICe_XML_Calibration_File env)
      then Inl (Runtime_Error
             ''Camera_System::read_calibration_file(): DICe XML calibration file not valid'')
      else if \<not> isParameter sys_params (system_type_3D env)
      then Inl (Runtime_Error (''calibration file missing '' @ system_type_3D env))
      else
        and_then (get_string sys_params (system_type_3D env)) (\<lambda>sys_type_str.
        and_then (string_to_system_type_3d env sys_type_str) (\<lambda>t.
        and_then (read_cameras env sys_params (max_num_cameras_allowed st) 0 []) (\<lambda>cams.
        and_then (read_6_transform env sys_params
                    (st\<lparr> sys_type := t, cameras := cameras st @ cams \<rparr>)) (\<lambda>st1.
          read_4x4_transform env sys_params st1)))))"

subsection \<open>The VIC3D dialect (lines 282-332)\<close>

text \<open>
  The locals of the scan. \<open>current_camera\<close> is an \<open>int_t\<close> that the test of line 299
  keeps at 2 or below.
\<close>

record vic3d_scan =
  camera_infos :: "camera_info list"
  current_camera :: int
  xml_img_height :: int
  xml_img_width :: int

text \<open>
  The body of the loop of lines 288-324 for one token vector. \<open>tokens[1]\<close> to
  \<open>tokens[4]\<close> of a POLYGONMASK line and \<open>tokens[2]\<close> of a CAMERA line are read without a
  test of the size, and the numbers among them with \<open>std::atoi\<close>.
\<close>

definition vic3d_polygonmask :: "string list \<Rightarrow> vic3d_scan \<Rightarrow> error + vic3d_scan" where
  "vic3d_polygonmask tokens s =
     and_then (element_at tokens 1) (\<lambda>t1.
       if t1 \<noteq> ''WIDTH='' then Inl (Runtime_Error [])
       else
         and_then (element_at tokens 3) (\<lambda>t3.
           if t3 \<noteq> ''HEIGHT='' then Inl (Runtime_Error [])
           else
             and_then (element_at tokens 2) (\<lambda>t2.
             and_then (atoi t2) (\<lambda>width.
             and_then (element_at tokens 4) (\<lambda>t4.
             and_then (atoi t4) (\<lambda>height.
               Inr (s\<lparr> xml_img_width := width, xml_img_height := height \<rparr>)))))))"

definition vic3d_camera :: "environment \<Rightarrow> string list \<Rightarrow> vic3d_scan \<Rightarrow> error + vic3d_scan" where
  "vic3d_camera env tokens s =
     (if current_camera s > 1 then Inl (Runtime_Error [])
      else
        and_then (element_at tokens 2) (\<lambda>t2.
        and_then (atoi t2) (\<lambda>camera_index.
          let c = nat (current_camera s);
              info1 = (camera_infos s ! c) \<lparr> cam_id := ''CAMERA '' @ string_of_int camera_index \<rparr>
          in
          if camera_index \<ge> 10 then Inl (Runtime_Error [])
          else if length tokens \<le> 18 then Inl (Runtime_Error [])
          else
            let info2 = fold (\<lambda>i info.
                          info\<lparr> intrinsics :=
                            (intrinsics info)[param_order_int ! i := strtod env (tokens ! (i + 3))] \<rparr>)
                          [0..<length param_order_int] info1;
                info3 = info2\<lparr> lens_distortion_model := K1R1_K2R2_K3R3 \<rparr>
            in
            if tokens ! 11 \<noteq> ''ORIENTATION'' then Inl (Runtime_Error [])
            else
              let alpha = strtod env (tokens ! 12);
                  beta = strtod env (tokens ! 13);
                  gamma = strtod env (tokens ! 14);
                  info4 = set_rotation_matrix env alpha beta gamma info3;
                  info5 = info4\<lparr> tx := strtod env (tokens ! 15), ty := strtod env (tokens ! 16),
                                 tz := strtod env (tokens ! 17) \<rparr>
              in Inr (s\<lparr> camera_infos := (camera_infos s)[c := info5],
                         current_camera := current_camera s + 1 \<rparr>))))"

definition vic3d_line :: "environment \<Rightarrow> string list \<Rightarrow> vic3d_scan \<Rightarrow> error + vic3d_scan" where
  "vic3d_line env tokens s =
     (if length tokens = 0 then Inr s
      else if tokens ! 0 = ''POLYGONMASK'' then vic3d_polygonmask tokens s
      else if tokens ! 0 \<noteq> ''CAMERA'' then Inr s
      else vic3d_camera env tokens s)"

text \<open>Lines 282-332: the scan of the file, then the two cameras.\<close>

definition read_vic3d ::
  "environment \<Rightarrow> string list list \<Rightarrow> camera_system \<Rightarrow> error + camera_system" where
  "read_vic3d env lines st =
     and_then
       (for_each lines (vic3d_line env)
          \<lparr> camera_infos = replicate 2 (default_camera_info env), current_camera = 0,
            xml_img_height = 0, xml_img_width = 0 \<rparr>) (\<lambda>s.
       if xml_img_height s \<le> 0 \<or> xml_img_width s \<le> 0 then Inl (Runtime_Error [])
       else
         and_then
           (for_each [0..<length (camera_infos s)] (\<lambda>i cams.
              let info = (camera_infos s ! i)
                           \<lparr> image_height := xml_img_height s, image_width := xml_img_width s \<rparr>
              in case camera_check env info of Some e \<Rightarrow> Inl e | None \<Rightarrow> Inr (cams @ [info]))
              (cameras st)) (\<lambda>cams.
           if length cams \<noteq> 2 then Inl (Runtime_Error [])
           else Inr (st\<lparr> sys_type := VIC3D, cameras := cams \<rparr>)))"

subsection \<open>The text dialect (lines 336-437)\<close>

text \<open>
  The first pass (lines 353-361): the number of value lines, or the TRANSFORM error.
  \<open>total_num_values\<close> is an \<open>int_t\<close>; its increment overflows at \<open>INT_T_MAX\<close>.
\<close>

fun count_values :: "string list list \<Rightarrow> int \<Rightarrow> error + int" where
  "count_values [] total_num_values = Inr total_num_values"
| "count_values (tokens # rest) total_num_values =
     (if length tokens = 0 then count_values rest total_num_values
      else if tokens ! 0 = ''#'' then count_values rest total_num_values
      else if tokens ! 0 = ''TRANSFORM''
      then Inl (Runtime_Error
             ''Error, custom transforms are no longer supported in the txt calibration file format'')
      else if total_num_values = INT_T_MAX
      then Inl (Undefined_Behaviour ''total_num_values++'')
      else count_values rest (total_num_values + 1))"

record txt_scan =
  camera_info_0 :: camera_info
  camera_info_1 :: camera_info
  ext_values :: "real list"
  txt_img_height :: int
  txt_img_width :: int
  current_line :: int

text \<open>
  The body of the second loop (lines 377-400) for one token vector. \<open>current_line\<close>
  counts the value lines that the first pass has counted (24 or 30 of them), so its
  increment does not overflow.
\<close>

definition txt_line ::
  "environment \<Rightarrow> int \<Rightarrow> string list \<Rightarrow> txt_scan \<Rightarrow> error + txt_scan" where
  "txt_line env total_num_values tokens s =
     (if length tokens = 0 then Inr s
      else if tokens ! 0 = ''#'' then Inr s
      else if length tokens > 1 \<and> \<not> ndebug env \<and> tokens ! 1 \<noteq> ''#''
      then Inl (Assertion_Failed ''tokens[1] == #'')
      else
        let v = strtod env (tokens ! 0);
            n = current_line s
        in
        and_then
          (if n < 8 then
             Inr (s\<lparr> camera_info_0 := (camera_info_0 s)
                    \<lparr> intrinsics := (intrinsics (camera_info_0 s))[param_order_int ! nat n := v] \<rparr> \<rparr>)
           else if n < 16 then
             Inr (s\<lparr> camera_info_1 := (camera_info_1 s)
                    \<lparr> intrinsics :=
                        (intrinsics (camera_info_1 s))[param_order_int ! nat (n - 8) := v] \<rparr> \<rparr>)
           else if n < total_num_values - 2 then
             Inr (s\<lparr> ext_values := (ext_values s)[nat (n - 16) := v] \<rparr>)
           else if n < total_num_values - 1 then
             and_then (to_int_t v) (\<lambda>height. Inr (s\<lparr> txt_img_height := height \<rparr>))
           else
             and_then (to_int_t v) (\<lambda>width. Inr (s\<lparr> txt_img_width := width \<rparr>)))
          (\<lambda>s1. Inr (s1\<lparr> current_line := n + 1 \<rparr>)))"

text \<open>Lines 403-428: the extrinsics and the image size of the two cameras.\<close>

definition txt_cameras :: "environment \<Rightarrow> bool \<Rightarrow> txt_scan \<Rightarrow> camera_info \<times> camera_info" where
  "txt_cameras env has_eulers s =
     (let ext = ext_values s;
          c1 = (camera_info_1 s)
                 \<lparr> tx := ext ! (length ext - 3), ty := ext ! (length ext - 2),
                   tz := ext ! (length ext - 1) \<rparr>;
          c2 = (if has_eulers then set_rotation_matrix env (ext ! 0) (ext ! 1) (ext ! 2) c1
                else c1\<lparr> rotation_matrix :=
                       fold (\<lambda>k m. set_entry m (k div 3) (k mod 3) (ext ! k)) [0..<9]
                         (rotation_matrix c1) \<rparr>)
      in ((camera_info_0 s)
            \<lparr> image_height := txt_img_height s, image_width := txt_img_width s \<rparr>,
          c2\<lparr> image_height := txt_img_height s, image_width := txt_img_width s \<rparr>))"

text \<open>The message of lines 363-365, with the name of the file at its end.\<close>

definition invalid_number_of_parameters :: "string \<Rightarrow> string" where
  "invalid_number_of_parameters cal_file =
     ''Error, invalid number of paramers in txt calibration file.'' @ [CHR 0x0A]
     @ ''    This is likely due to the text file format changing to now'' @ [CHR 0x0A]
     @ ''    require the image height and width to be specified in the file'' @ cal_file"

text \<open>Lines 336-437.\<close>

definition read_txt ::
  "environment \<Rightarrow> string \<Rightarrow> string list list \<Rightarrow> camera_system \<Rightarrow> error + camera_system" where
  "read_txt env cal_file lines st =
     and_then (count_values lines 0) (\<lambda>total_num_values.
       if total_num_values \<noteq> 24 \<and> total_num_values \<noteq> 30
       then Inl (Runtime_Error (invalid_number_of_parameters cal_file))
       else
         and_then
           (for_each lines (txt_line env total_num_values)
              \<lparr> camera_info_0 = (default_camera_info env)
                  \<lparr> cam_id := ''CAMERA 0'', lens_distortion_model := K1R1_K2R2_K3R3 \<rparr>,
                camera_info_1 = (default_camera_info env)
                  \<lparr> cam_id := ''CAMERA 1'', lens_distortion_model := K1R1_K2R2_K3R3 \<rparr>,
                ext_values = replicate (nat (total_num_values - 18)) 0,
                txt_img_height = - 1, txt_img_width = - 1, current_line = 0 \<rparr>) (\<lambda>s.
           if txt_img_height s < 0 then Inl (Runtime_Error [])
           else if txt_img_width s < 0 then Inl (Runtime_Error [])
           else
             let cs = txt_cameras env (total_num_values = 24) s in
             case camera_check env (fst cs) of
               Some e \<Rightarrow> Inl e
             | None \<Rightarrow>
                 (case camera_check env (snd cs) of
                    Some e \<Rightarrow> Inl e
                  | None \<Rightarrow>
                      Inr (st\<lparr> sys_type := GENERIC_SYSTEM,
                                cameras := cameras st @ [fst cs, snd cs] \<rparr>))))"

subsection \<open>\<open>Camera_System::read_calibration_file\<close>\<close>

text \<open>
  The dispatch of lines 76-92 and 267-442. The result is the object after a call that
  returns; what a throwing call leaves in the object is not tracked.
\<close>

definition read_calibration_file ::
  "environment \<Rightarrow> calibration_file \<Rightarrow> camera_system \<Rightarrow> error + camera_system" where
  "read_calibration_file env cal_file st =
     (case teuchos_parameters cal_file of
        Inr sys_params \<Rightarrow> read_dice_xml env sys_params st
      | Inl _ \<Rightarrow>
          if \<not> stream_good cal_file
          then Inl (Runtime_Error (''Error, the calibration file does not exist or is corrupt: ''
                                     @ file_name cal_file))
          else if found_in ''xml'' (file_name cal_file)
          then read_vic3d env (token_lines cal_file) st
          else if found_in ''txt'' (file_name cal_file)
          then read_txt env (file_name cal_file) (token_lines cal_file) st
          else Inl (Runtime_Error (''Error, unrecognized calibration parameters file format: ''
                                     @ file_name cal_file)))"

subsection \<open>Concrete calibration inputs\<close>

text \<open>
  An environment for the concrete evaluations: numbers are read as decimal integers, the
  two array texts and the enum texts that the inputs below use are recognised, Euler
  angles give the composed rotation of the spec, and the constructor accepts a camera
  with a positive image size.
\<close>

definition sample_environment :: environment where
  "sample_environment =
     \<lparr> strtod = (\<lambda>s. real_of_int (decimal_value s)),
       from_string_to_int_array =
         (\<lambda>s. if s = ''{ 500, 1000 }'' then Inr [500, 1000]
              else Inl (Collaborator_Error ''fromStringToArray'')),
       from_string_to_scalar_array =
         (\<lambda>s. if s = ''{ 1, 0, 0 }'' then Inr [1, 0, 0]
              else if s = ''{ 0, 1, 0 }'' then Inr [0, 1, 0]
              else if s = ''{ 0, 0, 1 }'' then Inr [0, 0, 1]
              else Inl (Collaborator_Error ''fromStringToArray'')),
       string_to_system_type_3d =
         (\<lambda>s. if s = ''GENERIC_SYSTEM'' then Inr GENERIC_SYSTEM
              else Inl (Collaborator_Error ''string_to_system_type_3d'')),
       string_to_lens_distortion_model =
         (\<lambda>s. if s = ''K1R1_K2R2_K3R3'' then Inr K1R1_K2R2_K3R3
              else Inl (Collaborator_Error ''string_to_lens_distortion_model'')),
       intrinsic_names = [''CX'', ''CY'', ''FX'', ''FY'', ''FS'', ''K1'', ''K2'', ''K3''],
       default_camera_info =
         \<lparr> cam_id = [], image_height = - 1, image_width = - 1, pixel_depth = 0,
           lens = [], comments = [], lens_distortion_model = NO_LENS_DISTORTION,
           intrinsics = replicate 8 0, tx = 0, ty = 0, tz = 0,
           rotation_matrix = [[1, 0, 0], [0, 1, 0], [0, 0, 1]] \<rparr>,
       set_rotation_matrix =
         (\<lambda>a b g info. info\<lparr> rotation_matrix :=
            [[cos b * cos g, sin a * sin b * cos g - cos a * sin g,
              cos a * sin b * cos g + sin a * sin g],
             [cos b * sin g, sin a * sin b * sin g + cos a * cos g,
              cos a * sin b * sin g - sin a * cos g],
             [- sin b, sin a * cos b, cos a * cos b]] \<rparr>),
       camera_check =
         (\<lambda>info. if image_height info \<le> 0 \<or> image_width info \<le> 0
                 then Some (Runtime_Error ''invalid camera'') else None),
       DICe_XML_Calibration_File = ''DICe_XML_Calibration_File'',
       system_type_3D = ''System_Type_3D'',
       rotation_3x3_matrix = ''rotation_3x3_matrix'',
       user_6_param_transform = ''user_6_param_transform'',
       user_4x4_param_transform = ''user_4x4_param_transform'',
       ndebug = True \<rparr>"

text \<open>A camera sublist with the two required parameters and nothing else.\<close>

definition plain_camera :: parameter_list where
  "plain_camera =
     [(''IMAGE_HEIGHT_WIDTH'', PString ''{ 500, 1000 }''),
      (''LENS_DISTORTION_MODEL'', PString ''K1R1_K2R2_K3R3'')]"

text \<open>
  The same camera with its rotation given by the sublist that the writer emits
  (lines 606-620): three rows, no Euler angles.
\<close>

definition rotation_matrix_camera :: parameter_list where
  "rotation_matrix_camera =
     plain_camera @
     [(''rotation_3x3_matrix'',
       PSublist [(''ROW 0'', PString ''{ 1, 0, 0 }''), (''ROW 1'', PString ''{ 0, 1, 0 }''),
                 (''ROW 2'', PString ''{ 0, 0, 1 }'')])]"

text \<open>
  DICe XML files with \<open>k\<close> camera sublists of one kind, under the names that line 108
  looks up.
\<close>

definition dice_xml_file :: "nat \<Rightarrow> parameter_list \<Rightarrow> calibration_file" where
  "dice_xml_file k camera =
     \<lparr> file_name = ''cal.xml'',
       teuchos_parameters =
         Inr ([(''DICe_XML_Calibration_File'', PBool True),
               (''System_Type_3D'', PString ''GENERIC_SYSTEM'')]
              @ map (\<lambda>i. (camera_sublist_id i, PSublist camera)) [0..<k]),
       stream_good = True, token_lines = [] \<rparr>"







subsection \<open>Kinds of lines, for stating what the legacy parsers accept\<close>












section \<open>Properties\<close>

subsection \<open>Auxiliary facts\<close>

lemmas rigid_body_enum_defs =
  ANGLE_X_def ANGLE_Y_def ANGLE_Z_def TRANSLATION_X_def TRANSLATION_Y_def TRANSLATION_Z_def

lemma upt_0_3: "[0..<3] = [0, 1, 2]"
  by (simp add: upt_rec)

lemma upt_0_6: "[0..<6] = [0, 1, 2, 3, 4, 5]"
  by (simp add: upt_rec)

lemma replicate_4: "replicate 4 x = [x, x, x, x]"
  by (simp add: numeral_eq_Suc)

lemma replicate_6: "replicate 6 x = [x, x, x, x, x, x]"
  by (simp add: numeral_eq_Suc)

lemma length_6_cases: "length m = 6 \<Longrightarrow> \<exists>a b c d e f. m = [a, b, c, d, e, f]"
  by (auto simp: numeral_eq_Suc length_Suc_conv)

lemma fold_triple:
  "fold (\<lambda>i (a, b, c). (F i a, G i b, H i c)) xs (a, b, c)
     = (fold F xs a, fold G xs b, fold H xs c)"
  by (induction xs arbitrary: a b c) simp_all

lemma fold_update_upt:
  "n \<le> length t \<Longrightarrow> fold (\<lambda>i t. t[i := f i]) [0..<n] t = map f [0..<n] @ drop n t"
proof (induction n)
  case 0
  then show ?case by simp
next
  case (Suc n)
  then have "n < length t" by simp
  then have "drop n t = t ! n # drop (Suc n) t"
    by (simp add: Cons_nth_drop_Suc)
  with Suc show ?case
    by (simp add: list_update_append)
qed

lemma fold_update_row_upt:
  "j < length m \<Longrightarrow> n \<le> length (m ! j) \<Longrightarrow>
   fold (\<lambda>i m. m[j := (m ! j)[i := f i]]) [0..<n] m = m[j := map f [0..<n] @ drop n (m ! j)]"
proof (induction n)
  case 0
  then show ?case by simp
next
  case (Suc n)
  then have "n < length (m ! j)" by simp
  then have "drop n (m ! j) = m ! j ! n # drop (Suc n) (m ! j)"
    by (simp add: Cons_nth_drop_Suc)
  with Suc show ?case
    by (simp add: list_update_append)
qed

subsection \<open>The rigid-body transform once its loops are reached\<close>

text \<open>
  The coordinate loop writes, for every index below the batch size, the affine image of
  the source point under the cached coefficients; entries past the batch size are kept.
\<close>

lemma transform_coordinates_eq:
  assumes "n \<le> length t_x" "n \<le> length t_y" "n \<le> length t_z"
  shows "transform_coordinates st sx sy sz n (t_x, t_y, t_z) =
     (map (\<lambda>i. rot_trans_3D_x st ! 0 * sx ! i + rot_trans_3D_x st ! 1 * sy ! i
                + rot_trans_3D_x st ! 2 * sz ! i + rot_trans_3D_x st ! 3) [0..<n] @ drop n t_x,
      map (\<lambda>i. rot_trans_3D_y st ! 0 * sx ! i + rot_trans_3D_y st ! 1 * sy ! i
                + rot_trans_3D_y st ! 2 * sz ! i + rot_trans_3D_y st ! 3) [0..<n] @ drop n t_y,
      map (\<lambda>i. rot_trans_3D_z st ! 0 * sx ! i + rot_trans_3D_z st ! 1 * sy ! i
                + rot_trans_3D_z st ! 2 * sz ! i + rot_trans_3D_z st ! 3) [0..<n] @ drop n t_z)"
  using assms unfolding transform_coordinates_def
  by (simp add: fold_triple fold_update_upt)

lemma angle_partials_eq:
  assumes "j < length dx" "j < length dy" "j < length dz"
    "n \<le> length (dx ! j)" "n \<le> length (dy ! j)" "n \<le> length (dz ! j)"
  shows "angle_partials st sx sy sz n j (dx, dy, dz) =
     (dx[j := map (\<lambda>i. rot_trans_3D_dx st ! j ! 0 * sx ! i + rot_trans_3D_dx st ! j ! 1 * sy ! i
            + rot_trans_3D_dx st ! j ! 2 * sz ! i) [0..<n] @ drop n (dx ! j)],
      dy[j := map (\<lambda>i. rot_trans_3D_dy st ! j ! 0 * sx ! i + rot_trans_3D_dy st ! j ! 1 * sy ! i
            + rot_trans_3D_dy st ! j ! 2 * sz ! i) [0..<n] @ drop n (dy ! j)],
      dz[j := map (\<lambda>i. rot_trans_3D_dz st ! j ! 0 * sx ! i + rot_trans_3D_dz st ! j ! 1 * sy ! i
            + rot_trans_3D_dz st ! j ! 2 * sz ! i) [0..<n] @ drop n (dz ! j)])"
  using assms unfolding angle_partials_def
  by (simp add: fold_triple fold_update_row_upt)

text \<open>
  The derivative block overwrites all six rows: rows 0-2 hold the cached angle partials
  applied to the source points, rows 3-5 the unit columns of the translations. Nothing of
  the incoming rows survives.
\<close>

lemma calculate_partials_eq:
  assumes "length dx = 6" "length dy = 6" "length dz = 6"
    "list_all (\<lambda>r. length r = n) dx" "list_all (\<lambda>r. length r = n) dy"
    "list_all (\<lambda>r. length r = n) dz"
  shows "calculate_partials st sx sy sz n (dx, dy, dz) =
     ([map (\<lambda>i. rot_trans_3D_dx st ! 0 ! 0 * sx ! i + rot_trans_3D_dx st ! 0 ! 1 * sy ! i
            + rot_trans_3D_dx st ! 0 ! 2 * sz ! i) [0..<n],
       map (\<lambda>i. rot_trans_3D_dx st ! 1 ! 0 * sx ! i + rot_trans_3D_dx st ! 1 ! 1 * sy ! i
            + rot_trans_3D_dx st ! 1 ! 2 * sz ! i) [0..<n],
       map (\<lambda>i. rot_trans_3D_dx st ! 2 ! 0 * sx ! i + rot_trans_3D_dx st ! 2 ! 1 * sy ! i
            + rot_trans_3D_dx st ! 2 ! 2 * sz ! i) [0..<n],
       replicate n 1, replicate n 0, replicate n 0],
      [map (\<lambda>i. rot_trans_3D_dy st ! 0 ! 0 * sx ! i + rot_trans_3D_dy st ! 0 ! 1 * sy ! i
            + rot_trans_3D_dy st ! 0 ! 2 * sz ! i) [0..<n],
       map (\<lambda>i. rot_trans_3D_dy st ! 1 ! 0 * sx ! i + rot_trans_3D_dy st ! 1 ! 1 * sy ! i
            + rot_trans_3D_dy st ! 1 ! 2 * sz ! i) [0..<n],
       map (\<lambda>i. rot_trans_3D_dy st ! 2 ! 0 * sx ! i + rot_trans_3D_dy st ! 2 ! 1 * sy ! i
            + rot_trans_3D_dy st ! 2 ! 2 * sz ! i) [0..<n],
       replicate n 0, replicate n 1, replicate n 0],
      [map (\<lambda>i. rot_trans_3D_dz st ! 0 ! 0 * sx ! i + rot_trans_3D_dz st ! 0 ! 1 * sy ! i
            + rot_trans_3D_dz st ! 0 ! 2 * sz ! i) [0..<n],
       map (\<lambda>i. rot_trans_3D_dz st ! 1 ! 0 * sx ! i + rot_trans_3D_dz st ! 1 ! 1 * sy ! i
            + rot_trans_3D_dz st ! 1 ! 2 * sz ! i) [0..<n],
       map (\<lambda>i. rot_trans_3D_dz st ! 2 ! 0 * sx ! i + rot_trans_3D_dz st ! 2 ! 1 * sy ! i
            + rot_trans_3D_dz st ! 2 ! 2 * sz ! i) [0..<n],
       replicate n 0, replicate n 0, replicate n 1])"
proof -
  obtain a1 a2 a3 a4 a5 a6 where dx: "dx = [a1, a2, a3, a4, a5, a6]"
    using length_6_cases [OF assms(1)] by blast
  obtain b1 b2 b3 b4 b5 b6 where dy: "dy = [b1, b2, b3, b4, b5, b6]"
    using length_6_cases [OF assms(2)] by blast
  obtain c1 c2 c3 c4 c5 c6 where dz: "dz = [c1, c2, c3, c4, c5, c6]"
    using length_6_cases [OF assms(3)] by blast
  show ?thesis
    using assms(4-6) unfolding calculate_partials_def dx dy dz
    by (simp add: upt_0_3 angle_partials_eq fill_row_def)
qed

subsection \<open>The coefficients and partials that \<open>initialize_rot_trans_3D\<close> caches\<close>

lemma length_4_cases: "length v = 4 \<Longrightarrow> \<exists>a b c d. v = [a, b, c, d]"
  by (auto simp: numeral_eq_Suc length_Suc_conv)

lemma set4_sized: "length v = 4 \<Longrightarrow> set4 v a b c d = [a, b, c, d]"
  by (auto dest!: length_4_cases simp: set4_def)

lemma assign_shape:
  assumes "cache_shape st"
  shows "length (rot_trans_3D_x (assign_rot_trans_3D st)) = 4"
    "length (rot_trans_3D_y (assign_rot_trans_3D st)) = 4"
    "length (rot_trans_3D_z (assign_rot_trans_3D st)) = 4"
    "length (rot_trans_3D_dx (assign_rot_trans_3D st)) = 6"
    "length (rot_trans_3D_dy (assign_rot_trans_3D st)) = 6"
    "length (rot_trans_3D_dz (assign_rot_trans_3D st)) = 6"
    "list_all (\<lambda>r. length r = 4) (rot_trans_3D_dx (assign_rot_trans_3D st))"
    "list_all (\<lambda>r. length r = 4) (rot_trans_3D_dy (assign_rot_trans_3D st))"
    "list_all (\<lambda>r. length r = 4) (rot_trans_3D_dz (assign_rot_trans_3D st))"
  using assms
  by (auto simp: cache_shape_def assign_rot_trans_3D_def upt_0_6 dest!: length_6_cases)

text \<open>
  With six parameters, the coefficient block leaves the closed-form rotation of the three
  angles and the translation in the caches.
\<close>

lemma initialize_coefficients:
  assumes "cache_shape st" "length params = 6"
  shows "rot_trans_3D_x (fst (initialize_rot_trans_3D params p st)) =
           [cos (params ! 1) * cos (params ! 2),
            sin (params ! 0) * sin (params ! 1) * cos (params ! 2) - cos (params ! 0) * sin (params ! 2),
            cos (params ! 0) * sin (params ! 1) * cos (params ! 2) + sin (params ! 0) * sin (params ! 2),
            params ! 3]"
    and "rot_trans_3D_y (fst (initialize_rot_trans_3D params p st)) =
           [cos (params ! 1) * sin (params ! 2),
            sin (params ! 0) * sin (params ! 1) * sin (params ! 2) + cos (params ! 0) * cos (params ! 2),
            cos (params ! 0) * sin (params ! 1) * sin (params ! 2) - sin (params ! 0) * cos (params ! 2),
            params ! 4]"
    and "rot_trans_3D_z (fst (initialize_rot_trans_3D params p st)) =
           [- sin (params ! 1), sin (params ! 0) * cos (params ! 1),
            cos (params ! 0) * cos (params ! 1), params ! 5]"
  using assms(2) assign_shape(1-3) [OF assms(1)]
  by (simp_all add: initialize_rot_trans_3D_def Let_def set_rot_trans_coefficients_def
      set_rot_trans_partials_def set4_sized rigid_body_enum_defs)

lemma set_row4_sized:
  "length m = 6 \<Longrightarrow> list_all (\<lambda>r. length r = 4) m \<Longrightarrow> r < 6 \<Longrightarrow>
     set_row4 m r a b c d = m[r := [a, b, c, d]]
     \<and> length (set_row4 m r a b c d) = 6 \<and> list_all (\<lambda>r. length r = 4) (set_row4 m r a b c d)"
  by (auto simp: set_row4_def set4_sized list_all_length nth_list_update)

text \<open>The rows 0-2 of the partials caches, as the partials block writes them.\<close>

lemma initialize_partials:
  assumes "cache_shape st" "length params = 6"
  shows "take 3 (rot_trans_3D_dx (fst (initialize_rot_trans_3D params True st))) =
           [[0,
             cos (params ! 0) * sin (params ! 1) * cos (params ! 2) + sin (params ! 0) * sin (params ! 2),
             - sin (params ! 0) * sin (params ! 1) * cos (params ! 2) + cos (params ! 0) * sin (params ! 2),
             0],
            [- sin (params ! 1) * cos (params ! 2),
             sin (params ! 0) * cos (params ! 1) * cos (params ! 2),
             cos (params ! 0) * cos (params ! 1) * cos (params ! 2), 0],
            [- cos (params ! 1) * sin (params ! 2),
             - sin (params ! 0) * sin (params ! 1) * sin (params ! 2) - cos (params ! 0) * cos (params ! 2),
             - cos (params ! 0) * sin (params ! 1) * sin (params ! 2) + sin (params ! 0) * cos (params ! 2),
             0]]"
    and "take 3 (rot_trans_3D_dy (fst (initialize_rot_trans_3D params True st))) =
           [[0,
             cos (params ! 0) * sin (params ! 1) * sin (params ! 2) - sin (params ! 0) * cos (params ! 2),
             - sin (params ! 0) * sin (params ! 1) * sin (params ! 2) - cos (params ! 0) * cos (params ! 2),
             0],
            [- sin (params ! 1) * sin (params ! 2),
             sin (params ! 0) * cos (params ! 1) * sin (params ! 2),
             cos (params ! 0) * cos (params ! 1) * sin (params ! 2), 0],
            [cos (params ! 1) * cos (params ! 2),
             sin (params ! 0) * sin (params ! 1) * cos (params ! 2) - cos (params ! 0) * sin (params ! 2),
             cos (params ! 0) * sin (params ! 1) * cos (params ! 2) + sin (params ! 0) * sin (params ! 2),
             0]]"
    and "take 3 (rot_trans_3D_dz (fst (initialize_rot_trans_3D params True st))) =
           [[0, cos (params ! 0) * cos (params ! 1), - sin (params ! 0) * cos (params ! 1), 0],
            [- cos (params ! 1), - sin (params ! 0) * sin (params ! 1),
             - cos (params ! 0) * sin (params ! 1), 0],
            [0, 0, 0, 0]]"
proof -
  obtain a1 a2 a3 a4 a5 a6
    where dx: "rot_trans_3D_dx (assign_rot_trans_3D st) = [a1, a2, a3, a4, a5, a6]"
    using length_6_cases [OF assign_shape(4) [OF assms(1)]] by blast
  obtain b1 b2 b3 b4 b5 b6
    where dy: "rot_trans_3D_dy (assign_rot_trans_3D st) = [b1, b2, b3, b4, b5, b6]"
    using length_6_cases [OF assign_shape(5) [OF assms(1)]] by blast
  obtain c1 c2 c3 c4 c5 c6
    where dz: "rot_trans_3D_dz (assign_rot_trans_3D st) = [c1, c2, c3, c4, c5, c6]"
    using length_6_cases [OF assign_shape(6) [OF assms(1)]] by blast
  from dx dy dz assign_shape(7-9) [OF assms(1)]
  have sz: "length a1 = 4" "length a2 = 4" "length a3 = 4"
    "length b1 = 4" "length b2 = 4" "length b3 = 4"
    "length c1 = 4" "length c2 = 4" "length c3 = 4"
    by simp_all
  note defs = initialize_rot_trans_3D_def Let_def set_rot_trans_coefficients_def
      set_rot_trans_partials_def set_row4_def set4_sized rigid_body_enum_defs
  show "take 3 (rot_trans_3D_dx (fst (initialize_rot_trans_3D params True st))) =
           [[0,
             cos (params ! 0) * sin (params ! 1) * cos (params ! 2) + sin (params ! 0) * sin (params ! 2),
             - sin (params ! 0) * sin (params ! 1) * cos (params ! 2) + cos (params ! 0) * sin (params ! 2),
             0],
            [- sin (params ! 1) * cos (params ! 2),
             sin (params ! 0) * cos (params ! 1) * cos (params ! 2),
             cos (params ! 0) * cos (params ! 1) * cos (params ! 2), 0],
            [- cos (params ! 1) * sin (params ! 2),
             - sin (params ! 0) * sin (params ! 1) * sin (params ! 2) - cos (params ! 0) * cos (params ! 2),
             - cos (params ! 0) * sin (params ! 1) * sin (params ! 2) + sin (params ! 0) * cos (params ! 2),
             0]]"
    using dx sz assms(2) by (simp add: defs)
  show "take 3 (rot_trans_3D_dy (fst (initialize_rot_trans_3D params True st))) =
           [[0,
             cos (params ! 0) * sin (params ! 1) * sin (params ! 2) - sin (params ! 0) * cos (params ! 2),
             - sin (params ! 0) * sin (params ! 1) * sin (params ! 2) - cos (params ! 0) * cos (params ! 2),
             0],
            [- sin (params ! 1) * sin (params ! 2),
             sin (params ! 0) * cos (params ! 1) * sin (params ! 2),
             cos (params ! 0) * cos (params ! 1) * sin (params ! 2), 0],
            [cos (params ! 1) * cos (params ! 2),
             sin (params ! 0) * sin (params ! 1) * cos (params ! 2) - cos (params ! 0) * sin (params ! 2),
             cos (params ! 0) * sin (params ! 1) * cos (params ! 2) + sin (params ! 0) * sin (params ! 2),
             0]]"
    using dy sz assms(2) by (simp add: defs)
  show "take 3 (rot_trans_3D_dz (fst (initialize_rot_trans_3D params True st))) =
           [[0, cos (params ! 0) * cos (params ! 1), - sin (params ! 0) * cos (params ! 1), 0],
            [- cos (params ! 1), - sin (params ! 0) * sin (params ! 1),
             - cos (params ! 0) * sin (params ! 1), 0],
            [0, 0, 0, 0]]"
    using dz sz assms(2) by (simp add: defs)
qed

lemma initialize_is_spec_rotation:
  assumes "cache_shape st" "length params = 6"
  shows "[take 3 (rot_trans_3D_x (fst (initialize_rot_trans_3D params p st))),
          take 3 (rot_trans_3D_y (fst (initialize_rot_trans_3D params p st))),
          take 3 (rot_trans_3D_z (fst (initialize_rot_trans_3D params p st)))]
           = spec_rotation (params ! 0) (params ! 1) (params ! 2)"
    and "[rot_trans_3D_x (fst (initialize_rot_trans_3D params p st)) ! 3,
          rot_trans_3D_y (fst (initialize_rot_trans_3D params p st)) ! 3,
          rot_trans_3D_z (fst (initialize_rot_trans_3D params p st)) ! 3]
           = [params ! 3, params ! 4, params ! 5]"
  by (simp_all add: initialize_coefficients [OF assms] spec_rotation_def)

lemma nth_take3: "k < 3 \<Longrightarrow> m ! k = take 3 m ! k"
  by simp

text \<open>
  Each cached partial is the derivative of the matching entry of the rotation of the
  spec with respect to its angle: row \<open>j\<close> of \<open>rot_trans_3D_dx_\<close> holds the derivatives
  of the first row of \<open>R\<close> in angle \<open>j\<close>, and likewise for \<open>_dy_\<close> and \<open>_dz_\<close>.
\<close>

lemma cached_partials_are_derivatives:
  assumes "cache_shape st" "length params = 6" "j < 3" "k < 3"
  shows "((\<lambda>t. spec_rotation (params[j := t] ! 0) (params[j := t] ! 1) (params[j := t] ! 2) ! 0 ! k)
            has_real_derivative
              rot_trans_3D_dx (fst (initialize_rot_trans_3D params True st)) ! j ! k)
           (at (params ! j))"
    and "((\<lambda>t. spec_rotation (params[j := t] ! 0) (params[j := t] ! 1) (params[j := t] ! 2) ! 1 ! k)
            has_real_derivative
              rot_trans_3D_dy (fst (initialize_rot_trans_3D params True st)) ! j ! k)
           (at (params ! j))"
    and "((\<lambda>t. spec_rotation (params[j := t] ! 0) (params[j := t] ! 1) (params[j := t] ! 2) ! 2 ! k)
            has_real_derivative
              rot_trans_3D_dz (fst (initialize_rot_trans_3D params True st)) ! j ! k)
           (at (params ! j))"
proof -
  obtain p0 p1 p2 p3 p4 p5 where p: "params = [p0, p1, p2, p3, p4, p5]"
    using length_6_cases [OF assms(2)] by blast
  from assms(3,4) have jk: "j = 0 \<or> j = 1 \<or> j = 2" "k = 0 \<or> k = 1 \<or> k = 2"
    by auto
  note dx = initialize_partials(1) [OF assms(1,2)]
    and dy = initialize_partials(2) [OF assms(1,2)]
    and dz = initialize_partials(3) [OF assms(1,2)]
  show "((\<lambda>t. spec_rotation (params[j := t] ! 0) (params[j := t] ! 1) (params[j := t] ! 2) ! 0 ! k)
            has_real_derivative
              rot_trans_3D_dx (fst (initialize_rot_trans_3D params True st)) ! j ! k)
           (at (params ! j))"
    unfolding nth_take3 [OF assms(3), of "rot_trans_3D_dx _"] dx
    using jk unfolding p spec_rotation_def
    by (auto intro!: derivative_eq_intros)
  show "((\<lambda>t. spec_rotation (params[j := t] ! 0) (params[j := t] ! 1) (params[j := t] ! 2) ! 1 ! k)
            has_real_derivative
              rot_trans_3D_dy (fst (initialize_rot_trans_3D params True st)) ! j ! k)
           (at (params ! j))"
    unfolding nth_take3 [OF assms(3), of "rot_trans_3D_dy _"] dy
    using jk unfolding p spec_rotation_def
    by (auto intro!: derivative_eq_intros)
  show "((\<lambda>t. spec_rotation (params[j := t] ! 0) (params[j := t] ! 1) (params[j := t] ! 2) ! 2 ! k)
            has_real_derivative
              rot_trans_3D_dz (fst (initialize_rot_trans_3D params True st)) ! j ! k)
           (at (params ! j))"
    unfolding nth_take3 [OF assms(3), of "rot_trans_3D_dz _"] dz
    using jk unfolding p spec_rotation_def
    by (auto intro!: derivative_eq_intros)
qed

text \<open>
  The fresh object has the shape, and \<open>initialize_rot_trans_3D\<close> keeps it.
\<close>

lemma cache_shape_Camera_System: "cache_shape Camera_System"
  by (simp add: cache_shape_def Camera_System_def)

lemma cache_shape_initialize:
  assumes "cache_shape st"
  shows "cache_shape (fst (initialize_rot_trans_3D params p st))"
proof -
  note sh = assign_shape [OF assms]
  obtain a1 a2 a3 a4 a5 a6
    where dx: "rot_trans_3D_dx (assign_rot_trans_3D st) = [a1, a2, a3, a4, a5, a6]"
    using length_6_cases [OF sh(4)] by blast
  obtain b1 b2 b3 b4 b5 b6
    where dy: "rot_trans_3D_dy (assign_rot_trans_3D st) = [b1, b2, b3, b4, b5, b6]"
    using length_6_cases [OF sh(5)] by blast
  obtain c1 c2 c3 c4 c5 c6
    where dz: "rot_trans_3D_dz (assign_rot_trans_3D st) = [c1, c2, c3, c4, c5, c6]"
    using length_6_cases [OF sh(6)] by blast
  show ?thesis
    using sh(1-3,7-9) unfolding dx dy dz
    by (simp add: cache_shape_def initialize_rot_trans_3D_def Let_def
        set_rot_trans_coefficients_def set_rot_trans_partials_def set_row4_def set4_sized
        rigid_body_enum_defs dx dy dz)
qed

text \<open>
  The coordinate loop after \<open>initialize_rot_trans_3D\<close>: every target point is the
  rotation of the spec applied to the source point, plus the translation.
\<close>

lemma transform_coordinates_closed_form:
  assumes "cache_shape st" "length params = 6"
    "n \<le> length t_x" "n \<le> length t_y" "n \<le> length t_z" "i < n"
  shows "fst (transform_coordinates (fst (initialize_rot_trans_3D params p st))
                sx sy sz n (t_x, t_y, t_z)) ! i
           = spec_rotation (params ! 0) (params ! 1) (params ! 2) ! 0 ! 0 * sx ! i
             + spec_rotation (params ! 0) (params ! 1) (params ! 2) ! 0 ! 1 * sy ! i
             + spec_rotation (params ! 0) (params ! 1) (params ! 2) ! 0 ! 2 * sz ! i
             + params ! 3"
    and "fst (snd (transform_coordinates (fst (initialize_rot_trans_3D params p st))
                sx sy sz n (t_x, t_y, t_z))) ! i
           = spec_rotation (params ! 0) (params ! 1) (params ! 2) ! 1 ! 0 * sx ! i
             + spec_rotation (params ! 0) (params ! 1) (params ! 2) ! 1 ! 1 * sy ! i
             + spec_rotation (params ! 0) (params ! 1) (params ! 2) ! 1 ! 2 * sz ! i
             + params ! 4"
    and "snd (snd (transform_coordinates (fst (initialize_rot_trans_3D params p st))
                sx sy sz n (t_x, t_y, t_z))) ! i
           = spec_rotation (params ! 0) (params ! 1) (params ! 2) ! 2 ! 0 * sx ! i
             + spec_rotation (params ! 0) (params ! 1) (params ! 2) ! 2 ! 1 * sy ! i
             + spec_rotation (params ! 0) (params ! 1) (params ! 2) ! 2 ! 2 * sz ! i
             + params ! 5"
  using assms(6)
  by (simp_all add: transform_coordinates_eq [OF assms(3-5)]
      initialize_coefficients [OF assms(1,2)] spec_rotation_def nth_append)


text \<open>The caches after \<open>initialize_rot_trans_3D\<close> on a fresh object, all angles zero.\<close>

lemma initialize_zero_angles:
  "initialize_rot_trans_3D [0, 0, 0, t1, t2, t3] False Camera_System =
     (Camera_System
        \<lparr> rot_trans_3D_x := [1, 0, 0, t1], rot_trans_3D_y := [0, 1, 0, t2],
          rot_trans_3D_z := [0, 0, 1, t3],
          rot_trans_3D_dx := replicate 6 [0, 0, 0, 0],
          rot_trans_3D_dy := replicate 6 [0, 0, 0, 0],
          rot_trans_3D_dz := replicate 6 [0, 0, 0, 0] \<rparr>, Inr ())"
  by (simp add: initialize_rot_trans_3D_def assign_rot_trans_3D_def Camera_System_def
      set_rot_trans_coefficients_def set4_def rigid_body_enum_defs upt_0_6 replicate_6 replicate_4)

lemma initialize_zero_angles_partials:
  "initialize_rot_trans_3D [0, 0, 0, 0, 0, 0] True Camera_System = (zero_angle_state, Inr ())"
  by (simp add: initialize_rot_trans_3D_def assign_rot_trans_3D_def Camera_System_def
      set_rot_trans_coefficients_def set_rot_trans_partials_def set_row4_def zero_angle_state_def
      set4_def rigid_body_enum_defs upt_0_6 replicate_6 replicate_4)

lemma calculate_partials_zero_angles:
  "calculate_partials zero_angle_state [1] [2] [3] 1
         (replicate 6 [0], replicate 6 [0], replicate 6 [0])
      = ([[0], [3], [- 2], [1], [0], [0]],
         [[- 3], [0], [1], [0], [1], [0]],
         [[2], [- 1], [0], [0], [0], [1]])"
  by (simp add: calculate_partials_def angle_partials_def fill_row_def zero_angle_state_def
      upt_0_3 replicate_6 Camera_System_def)



subsection \<open>Frame facts\<close>

lemma assign_rot_trans_3D_persistent:
  "persistent_fields (assign_rot_trans_3D st) = persistent_fields st"
  by (simp add: assign_rot_trans_3D_def persistent_fields_def)

lemma initialize_rot_trans_3D_persistent:
  "persistent_fields (fst (initialize_rot_trans_3D params p st)) = persistent_fields st"
  using assign_rot_trans_3D_persistent [of st]
  by (simp add: initialize_rot_trans_3D_def Let_def persistent_fields_def
      set_rot_trans_coefficients_def set_rot_trans_partials_def)

lemma rot_trans_3D_persistent:
  "persistent_fields (fst (rot_trans_3D st sx sy sz t_x t_y t_z params dx dy dz))
     = persistent_fields st"
  by (simp add: rot_trans_3D_def Let_def initialize_rot_trans_3D_persistent split: sum.splits)

lemma rot_trans_3D_coords_persistent:
  "persistent_fields (fst (rot_trans_3D_coords st sx sy sz t_x t_y t_z params))
     = persistent_fields st"
  by (simp add: rot_trans_3D_coords_def Let_def rot_trans_3D_persistent split: sum.splits)

lemma projection_traverse_persistent:
  "persistent_fields
     (fst (projection_traverse ops st s t isx isy itx ity params itdx itdy rb))
     = persistent_fields st"
  by (simp add: projection_traverse_def Let_def rot_trans_3D_persistent
      rot_trans_3D_coords_persistent split: sum.splits)

lemma projection_traverse_no_rigid_body:
  "fst (projection_traverse ops st s t isx isy itx ity params itdx itdy []) = st"
  by (simp add: projection_traverse_def Let_def split: sum.splits)

lemma list_ex_rows:
  "length dy = length dx \<Longrightarrow>
   list_ex (\<lambda>i. length (dx ! i) \<noteq> n \<or> length (dy ! i) \<noteq> n) [0..<length dx]
     \<longleftrightarrow> \<not> (list_all (\<lambda>r. length r = n) dx \<and> list_all (\<lambda>r. length r = n) dy)"
  by (auto simp: list_ex_iff list_all_iff all_set_conv_all_nth)

subsection \<open>Claims about the rigid-body transform and the projection\<close>

text \<open>
  C1. The claim: a call of \<open>rot_trans_3D\<close> whose coordinate arrays all have the same
  nonzero length, with six parameters, succeeds. The code: the first test of the function
  throws whenever \<open>source_x\<close> is not empty, so the call on one point with six parameters
  and well-sized targets throws and leaves the object as it was.
\<close>

theorem rot_trans_3D_rejects_nonempty_batch:
  "rot_trans_3D Camera_System [1] [2] [3] [0] [0] [0] [0, 0, 0, 0, 0, 0] [] [] []
     = (Camera_System, Inl (Runtime_Error []))"
  by (simp add: rot_trans_3D_def rot_trans_3D_checks_def)

text \<open>
  C2. The claim: for six parameters and every source point, \<open>rot_trans_3D\<close> produces
  \<open>R * p + T\<close>. The code at the point (1, 2, 3) with zero angles and translation (5, 6, 7):
  the call throws at its entry test; the coefficient computation and the coordinate loop,
  run on the same input, give the claimed point (6, 8, 10).
\<close>

theorem rot_trans_3D_throws_before_transform:
  "snd (rot_trans_3D Camera_System [1] [2] [3] [0] [0] [0] [0, 0, 0, 5, 6, 7] [] [] [])
      = Inl (Runtime_Error [])
   \<and> transform_coordinates (fst (initialize_rot_trans_3D [0, 0, 0, 5, 6, 7] False Camera_System))
        [1] [2] [3] 1 ([0], [0], [0]) = ([6], [8], [10])"
  by (simp add: rot_trans_3D_def rot_trans_3D_checks_def initialize_zero_angles
      transform_coordinates_def)

text \<open>
  C3. The claim: with derivatives requested, \<open>rot_trans_3D\<close> returns the unit columns for
  the translations and the analytic angle partials applied to the source point. The code
  at the point (1, 2, 3) with all parameters zero and six derivative rows per coordinate:
  the call throws at its entry test; the partials block, run on the same input, gives the
  claimed rows.
\<close>

theorem rot_trans_3D_throws_before_partials:
  "snd (rot_trans_3D Camera_System [1] [2] [3] [0] [0] [0] [0, 0, 0, 0, 0, 0]
          (replicate 6 [0]) (replicate 6 [0]) (replicate 6 [0]))
      = Inl (Runtime_Error [])
   \<and> calculate_partials (fst (initialize_rot_trans_3D [0, 0, 0, 0, 0, 0] True Camera_System))
        [1] [2] [3] 1 (replicate 6 [0], replicate 6 [0], replicate 6 [0])
      = ([[0], [3], [- 2], [1], [0], [0]],
         [[- 3], [0], [1], [0], [1], [0]],
         [[2], [- 1], [0], [0], [0], [1]])"
  using calculate_partials_zero_angles
  by (simp add: rot_trans_3D_def rot_trans_3D_checks_def initialize_zero_angles_partials)




text \<open>
  C5, as stated, fails: a call of \<open>rot_trans_3D\<close> on a fresh object (empty batch, six zero
  parameters) returns with the coefficient cache \<open>rot_trans_3D_x_\<close> changed from empty to
  (1, 0, 0, 0), and so does a projection of an empty batch with a rigid body.
\<close>

theorem rot_trans_3D_writes_cache:
  "rot_trans_3D_x Camera_System = []
   \<and> rot_trans_3D_x (fst (rot_trans_3D Camera_System [] [] [] [] [] []
                            [0, 0, 0, 0, 0, 0] [] [] [])) = [1, 0, 0, 0]
   \<and> rot_trans_3D_x two_camera_system = []
   \<and> rot_trans_3D_x (fst (camera_to_camera_projection copy_through_ops two_camera_system 0 1
                            [] [] [] [] [0, 0, 0] [] [] [0, 0, 0, 0, 0, 0])) = [1, 0, 0, 0]"
proof -
  have r: "rot_trans_3D st [] [] [] [] [] [] [0, 0, 0, 0, 0, 0] [] [] []
            = (fst (initialize_rot_trans_3D [0, 0, 0, 0, 0, 0] False st),
               Inr ([], [], [], [], [], []))" for st
    by (simp add: rot_trans_3D_def rot_trans_3D_checks_def Let_def transform_coordinates_def
        initialize_rot_trans_3D_def)
  have i: "rot_trans_3D_x (fst (initialize_rot_trans_3D [0, 0, 0, 0, 0, 0] False st))
            = [1, 0, 0, 0]" if "rot_trans_3D_x st = []" for st
    using that
    by (simp add: initialize_rot_trans_3D_def assign_rot_trans_3D_def Let_def
        set_rot_trans_coefficients_def set4_def rigid_body_enum_defs replicate_4)
  have c: "rot_trans_3D_x Camera_System = []" "rot_trans_3D_x two_camera_system = []"
    by (simp_all add: Camera_System_def two_camera_system_def)
  have "fst (camera_to_camera_projection copy_through_ops two_camera_system 0 1
               [] [] [] [] [0, 0, 0] [] [] [0, 0, 0, 0, 0, 0])
          = fst (initialize_rot_trans_3D [0, 0, 0, 0, 0, 0] False two_camera_system)"
    by (simp add: camera_to_camera_projection_def camera_to_camera_projection_checks_def
        projection_traverse_def two_camera_system_def num_cameras_def Let_def
        copy_through_ops_def and_then_def rot_trans_3D_coords_def r)
  with r i c show ?thesis by simp
qed

text \<open>
  C5, amended. Every call of \<open>rot_trans_3D\<close> and of \<open>camera_to_camera_projection\<close>,
  returning or throwing, leaves the cameras, the camera limit, the user transforms, the
  system type and the two transform flags as they were; a projection without rigid-body
  parameters leaves the whole object as it was. The rotation caches are members of the
  object and are overwritten by the calls that reach \<open>initialize_rot_trans_3D\<close>.
\<close>

theorem projection_writes_only_rotation_cache:
  "persistent_fields (fst (rot_trans_3D st sx sy sz t_x t_y t_z rb dx dy dz))
     = persistent_fields st
   \<and> persistent_fields
       (fst (camera_to_camera_projection ops st s t isx isy itx ity params itdx itdy rb))
     = persistent_fields st
   \<and> fst (camera_to_camera_projection ops st s t isx isy itx ity params itdx itdy []) = st"
  by (simp add: camera_to_camera_projection_def rot_trans_3D_persistent
      projection_traverse_persistent projection_traverse_no_rigid_body split: sum.splits)

text \<open>
  C10. A projection from a camera to itself passes the argument checks: for a valid
  camera index, three optical parameters, coordinate arrays of one length, derivative
  rows (if any) of the right number and length, and rigid-body parameters (if any) of
  length six, the checks return without throwing and the call is the traversal.
\<close>

theorem same_camera_projection_accepted:
  assumes "i < num_cameras st" "length params = 3"
    "length img_source_y = length img_source_x"
    "length img_target_x = length img_source_x"
    "length img_target_y = length img_source_x"
    "img_target_dx = [] \<or>
       length img_target_dx = (if rigid_body_params = [] then 3 else 6)
       \<and> length img_target_dy = length img_target_dx
       \<and> list_all (\<lambda>r. length r = length img_source_x) img_target_dx
       \<and> list_all (\<lambda>r. length r = length img_source_x) img_target_dy"
    "rigid_body_params = [] \<or> length rigid_body_params = 6"
  shows "camera_to_camera_projection_checks st i i img_source_x img_source_y
           img_target_x img_target_y params img_target_dx img_target_dy rigid_body_params = Inr ()
    \<and> camera_to_camera_projection ops st i i img_source_x img_source_y
           img_target_x img_target_y params img_target_dx img_target_dy rigid_body_params
      = projection_traverse ops st i i img_source_x img_source_y
           img_target_x img_target_y params img_target_dx img_target_dy rigid_body_params"
proof -
  have "camera_to_camera_projection_checks st i i img_source_x img_source_y
           img_target_x img_target_y params img_target_dx img_target_dy rigid_body_params = Inr ()"
  proof (cases "img_target_dx = []")
    case True
    with assms show ?thesis
      by (auto simp: camera_to_camera_projection_checks_def Let_def)
  next
    case False
    with assms(6) have sz: "length img_target_dx = (if rigid_body_params = [] then 3 else 6)"
      "length img_target_dy = length img_target_dx"
      "list_all (\<lambda>r. length r = length img_source_x) img_target_dx"
      "list_all (\<lambda>r. length r = length img_source_x) img_target_dy"
      by auto
    have nex: "\<not> list_ex (\<lambda>i. length (img_target_dx ! i) \<noteq> length img_source_x
                         \<or> length (img_target_dy ! i) \<noteq> length img_source_x)
                 [0..<length img_target_dx]"
      using list_ex_rows [OF sz(2), of "length img_source_x"] sz(3,4) by blast
    show ?thesis
      unfolding camera_to_camera_projection_checks_def Let_def
      using assms(1-5,7) sz(1,2) nex False by (simp split: if_splits)
  qed
  then show ?thesis
    by (simp add: camera_to_camera_projection_def)
qed

theorem same_camera_projection_accepted_witness:
  "(1::nat) < num_cameras two_camera_system \<and> length [0, 0, 0::real] = 3
   \<and> camera_to_camera_projection_checks two_camera_system 1 1 [1] [2] [0] [0] [0, 0, 0]
        (replicate 3 [0]) (replicate 3 [0]) [] = Inr ()
   \<and> camera_to_camera_projection copy_through_ops two_camera_system 1 1 [1] [2] [0] [0]
        [0, 0, 0] (replicate 3 [0]) (replicate 3 [0]) []
      = (two_camera_system, Inr (([1], [2]), (replicate 3 [0], replicate 3 [0])))"
proof -
  have t: "projection_traverse copy_through_ops two_camera_system 1 1 [1] [2] [0] [0]
        [0, 0, 0] (replicate 3 [0]) (replicate 3 [0]) []
      = (two_camera_system, Inr (([1], [2]), (replicate 3 [0], replicate 3 [0])))"
    by (simp add: projection_traverse_def copy_through_ops_def and_then_def target_leg_d_def
        Let_def)
  have n: "(1::nat) < num_cameras two_camera_system"
    by (simp add: num_cameras_def two_camera_system_def)
  show ?thesis
    using same_camera_projection_accepted
      [where i = 1 and st = two_camera_system and params = "[0, 0, 0]"
         and img_source_x = "[1]" and img_source_y = "[2]" and img_target_x = "[0]"
         and img_target_y = "[0]" and img_target_dx = "replicate 3 [0]"
         and img_target_dy = "replicate 3 [0]" and rigid_body_params = "[]"
         and ops = copy_through_ops] n t
    by (simp add: numeral_eq_Suc)
qed

subsection \<open>Facts about the parsers\<close>

lemma string_of_nat_digit:
  "string_of_nat 0 = ''0''" "string_of_nat 1 = ''1''" "string_of_nat 2 = ''2''"
  "string_of_nat 3 = ''3''" "string_of_nat 4 = ''4''" "string_of_nat 5 = ''5''"
  "string_of_nat 6 = ''6''" "string_of_nat 7 = ''7''" "string_of_nat 8 = ''8''"
  "string_of_nat 9 = ''9''" "string_of_nat (Suc 0) = ''1''"
  by (simp_all add: string_of_nat.simps)

lemma upt_0_8: "[0..<8] = [0, 1, 2, 3, 4, 5, 6, 7]"
  by (simp add: upt_rec)

lemma upt_0_9: "[0..<9] = [0, 1, 2, 3, 4, 5, 6, 7, 8]"
  by (simp add: upt_rec)


text \<open>
  The camera sublist without optional parameters is read into a camera, whatever its
  index.
\<close>

lemma read_plain_camera:
  "read_camera sample_environment plain_camera i =
     Inr ((default_camera_info sample_environment)
            \<lparr> lens_distortion_model := K1R1_K2R2_K3R3, image_height := 500,
              image_width := 1000, cam_id := ''CAMERA '' @ string_of_nat i \<rparr>)"
  by (simp add: read_camera_def read_required_def read_intrinsics_def read_translations_def
      read_eulers_def read_descriptions_def read_rotation_matrix_def plain_camera_def
      sample_environment_def and_then_def isParameter_def isSublist_def get_string_def
      element_at_def optional_double_def upt_0_8)

text \<open>
  A camera sublist that holds a rotation-matrix sublist is never read: with Euler angles
  the two exclude each other; without, row 0 is rejected when it is present (line 207)
  and \<open>get\<close> throws when it is absent (line 209).
\<close>

lemma rotation_matrix_never_read:
  assumes "isSublist camParams (rotation_3x3_matrix env)"
  shows "\<exists>e. read_rotation_matrix env camParams has_eulers info = Inl e"
  using assms
  by (auto simp: read_rotation_matrix_def upt_rec [of 0] and_then_def get_string_def
      isParameter_def split: option.splits)

lemma rotation_matrix_camera_never_read:
  assumes "isSublist camParams (rotation_3x3_matrix env)"
  shows "\<exists>e. read_camera env camParams i = Inl e"
proof -
  have "\<exists>e. read_rotation_matrix env camParams has_eulers info = Inl e" for has_eulers info
    using assms by (rule rotation_matrix_never_read)
  then show ?thesis
    unfolding read_camera_def and_then_def
    by (auto split: sum.splits) (metis sum.simps(4) Inl_Inr_False)
qed

text \<open>The camera loop, one turn at a time.\<close>

lemma read_cameras_step:
  assumes "Suc i < max_cams" "isSublist sp (camera_sublist_id i)"
    "read_camera env (get_sublist sp (camera_sublist_id i)) i = Inr info"
  shows "read_cameras env sp max_cams i cams
           = read_cameras env sp max_cams (Suc i) (cams @ [info])"
  using assms by (subst read_cameras.simps) auto

lemma read_cameras_limit:
  "Suc i = max_cams \<Longrightarrow>
   read_cameras env sp max_cams i cams
     = Inl (Runtime_Error ''too many cameras defined in the xml calibration file'')"
  by (subst read_cameras.simps) auto

lemma read_cameras_stop:
  "Suc i < max_cams \<Longrightarrow> \<not> isSublist sp (camera_sublist_id i) \<Longrightarrow>
   read_cameras env sp max_cams i cams = Inr cams"
  by (subst read_cameras.simps) auto

text \<open>
  With camera sublists 0 .. \<open>k - 1\<close> that are read and no sublist \<open>k\<close>, the loop returns
  the \<open>k\<close> cameras when \<open>k + 1\<close> is below the limit.
\<close>

lemma read_cameras_loaded:
  assumes "Suc k < max_cams" "i \<le> k"
    and "\<And>j. i \<le> j \<Longrightarrow> j < k \<Longrightarrow> isSublist sp (camera_sublist_id j)
           \<and> read_camera env (get_sublist sp (camera_sublist_id j)) j = Inr (infos j)"
    and "\<not> isSublist sp (camera_sublist_id k)"
  shows "read_cameras env sp max_cams i cams = Inr (cams @ map infos [i..<k])"
  using assms(2,3)
proof (induction "k - i" arbitrary: i cams)
  case 0
  then have "i = k" by simp
  with assms(1,4) show ?case
    by (simp add: read_cameras_stop)
next
  case (Suc d)
  then have lt: "i < k" by simp
  with assms(1) have "Suc i < max_cams" by simp
  moreover from Suc.prems(2) [of i] lt
  have "isSublist sp (camera_sublist_id i)"
    "read_camera env (get_sublist sp (camera_sublist_id i)) i = Inr (infos i)"
    by simp_all
  ultimately have "read_cameras env sp max_cams i cams
      = read_cameras env sp max_cams (Suc i) (cams @ [infos i])"
    by (rule read_cameras_step)
  also have "\<dots> = Inr ((cams @ [infos i]) @ map infos [Suc i..<k])"
  proof (rule Suc.hyps(1))
    show "d = k - Suc i" using Suc.hyps(2) by simp
    show "Suc i \<le> k" using lt by simp
    show "isSublist sp (camera_sublist_id j)
           \<and> read_camera env (get_sublist sp (camera_sublist_id j)) j = Inr (infos j)"
      if "Suc i \<le> j" "j < k" for j
      using that Suc.prems(2) [of j] by simp
  qed
  finally show ?case
    using lt by (simp add: upt_conv_Cons)
qed

text \<open>
  With camera sublists that are read at every index below the limit minus one, the loop
  throws: the test of line 106 fires at index limit - 1 before the sublist is looked up.
\<close>

lemma read_cameras_too_many:
  assumes "i < max_cams"
    and "\<And>j. i \<le> j \<Longrightarrow> Suc j < max_cams \<Longrightarrow> isSublist sp (camera_sublist_id j)
           \<and> (\<exists>info. read_camera env (get_sublist sp (camera_sublist_id j)) j = Inr info)"
  shows "read_cameras env sp max_cams i cams
           = Inl (Runtime_Error ''too many cameras defined in the xml calibration file'')"
  using assms
proof (induction "max_cams - Suc i" arbitrary: i cams)
  case 0
  then have "Suc i = max_cams" by simp
  then show ?case by (rule read_cameras_limit)
next
  case (Suc d)
  then have lt: "Suc i < max_cams" by simp
  from Suc.prems(2) [of i] lt obtain info
    where "isSublist sp (camera_sublist_id i)"
      "read_camera env (get_sublist sp (camera_sublist_id i)) i = Inr info"
    by auto
  with lt have "read_cameras env sp max_cams i cams
      = read_cameras env sp max_cams (Suc i) (cams @ [info])"
    by (rule read_cameras_step)
  also have "\<dots> = Inl (Runtime_Error ''too many cameras defined in the xml calibration file'')"
  proof (rule Suc.hyps(1))
    show "d = max_cams - Suc (Suc i)" using Suc.hyps(2) by simp
    show "Suc i < max_cams" by (rule lt)
    show "isSublist sp (camera_sublist_id j)
           \<and> (\<exists>info. read_camera env (get_sublist sp (camera_sublist_id j)) j = Inr info)"
      if "Suc i \<le> j" "Suc j < max_cams" for j
      using that Suc.prems(2) [of j] by simp
  qed
  finally show ?case .
qed





























subsection \<open>Claims about the calibration parser\<close>

text \<open>
  C6. The claim: a camera group whose rotation is given by a \<open>rotation_3x3_matrix\<close>
  sublist with the rows ROW 0, ROW 1, ROW 2 and no Euler angles parses, and the camera's
  rotation matrix is made of the nine entries. The code on a DICe XML file with one
  such camera group: the parse throws "cal file missing row for camera 3x3 rotation
  matrix", because the test of line 207 fires when the row is present.
\<close>

theorem rotation_matrix_group_rejected:
  "read_calibration_file sample_environment (dice_xml_file 1 rotation_matrix_camera)
     Camera_System
     = Inl (Runtime_Error ''cal file missing row for camera 3x3 rotation matrix'')"
  by (simp add: read_calibration_file_def dice_xml_file_def read_dice_xml_def
      read_cameras.simps Camera_System_def read_camera_def read_required_def
      read_intrinsics_def read_translations_def read_eulers_def read_descriptions_def
      read_rotation_matrix_def plain_camera_def rotation_matrix_camera_def
      sample_environment_def and_then_def isParameter_def isSublist_def get_sublist_def
      get_string_def element_at_def optional_double_def upt_0_8 upt_rec [of 0 3]
      camera_sublist_id_def string_of_nat_digit)







text \<open>
  C9. The claim: with the limit of 10 cameras, a file with the camera groups 0 .. k - 1
  parses for every k below 10. The code on files with camera groups that are read (under
  the names that line 108 looks up): with eight groups it returns eight cameras; with
  nine groups, CAMERA 0 to CAMERA 8, it throws "too many cameras", at index 9, where the
  test of line 106 comes before the look-up of a group that is not there.
\<close>

theorem nine_cameras_rejected:
  "read_calibration_file sample_environment (dice_xml_file 9 plain_camera) Camera_System
     = Inl (Runtime_Error ''too many cameras defined in the xml calibration file'')
   \<and> map_sum id (\<lambda>st. length (cameras st))
        (read_calibration_file sample_environment (dice_xml_file 8 plain_camera) Camera_System)
     = Inr 8"
proof -
  let ?p = "\<lambda>k. [(''DICe_XML_Calibration_File'', PBool True),
               (''System_Type_3D'', PString ''GENERIC_SYSTEM'')]
              @ map (\<lambda>i. (camera_sublist_id i, PSublist plain_camera)) [0..<k]"
  have g9: "isSublist (?p 9) (camera_sublist_id j)
            \<and> get_sublist (?p 9) (camera_sublist_id j) = plain_camera" if "j < 9" for j
    using that
    by (auto simp: upt_0_9 isSublist_def get_sublist_def camera_sublist_id_def
        string_of_nat_digit less_Suc_eq numeral_eq_Suc)
  have g8: "isSublist (?p 8) (camera_sublist_id j)
            \<and> get_sublist (?p 8) (camera_sublist_id j) = plain_camera" if "j < 8" for j
    using that
    by (auto simp: upt_0_8 isSublist_def get_sublist_def camera_sublist_id_def
        string_of_nat_digit less_Suc_eq numeral_eq_Suc)
  have n8: "\<not> isSublist (?p 8) (camera_sublist_id 8)"
    by (simp add: upt_0_8 isSublist_def camera_sublist_id_def string_of_nat_digit)
  have r9: "read_cameras sample_environment (?p 9) 10 0 []
              = Inl (Runtime_Error ''too many cameras defined in the xml calibration file'')"
    by (rule read_cameras_too_many) (use g9 read_plain_camera in auto)
  have r8: "read_cameras sample_environment (?p 8) 10 0 []
              = Inr ([] @ map (\<lambda>i. (default_camera_info sample_environment)
                      \<lparr> lens_distortion_model := K1R1_K2R2_K3R3, image_height := 500,
                        image_width := 1000, cam_id := ''CAMERA '' @ string_of_nat i \<rparr>) [0..<8])"
    by (rule read_cameras_loaded) (use g8 n8 read_plain_camera in auto)
  have head: "isParameter (?p k) ''DICe_XML_Calibration_File''"
    "isParameter (?p k) ''System_Type_3D''"
    "get_string (?p k) ''System_Type_3D'' = Inr ''GENERIC_SYSTEM''" for k
    by (simp_all add: isParameter_def get_string_def)
  have names: "DICe_XML_Calibration_File sample_environment = ''DICe_XML_Calibration_File''"
    "system_type_3D sample_environment = ''System_Type_3D''"
    "string_to_system_type_3d sample_environment ''GENERIC_SYSTEM'' = Inr GENERIC_SYSTEM"
    "user_6_param_transform sample_environment = ''user_6_param_transform''"
    "user_4x4_param_transform sample_environment = ''user_4x4_param_transform''"
    by (simp_all add: sample_environment_def)
  have none8: "\<not> isParameter (?p 8) ''user_6_param_transform''"
    "\<not> isSublist (?p 8) ''user_4x4_param_transform''"
    by (simp_all add: isParameter_def isSublist_def upt_0_8 camera_sublist_id_def)
  have max: "max_num_cameras_allowed Camera_System = 10"
    by (simp add: Camera_System_def)
  have a: "read_calibration_file sample_environment (dice_xml_file 9 plain_camera) Camera_System
     = Inl (Runtime_Error ''too many cameras defined in the xml calibration file'')"
    by (simp add: read_calibration_file_def dice_xml_file_def read_dice_xml_def head names
        max r9 and_then_def del: append_Cons)
  have b: "map_sum id (\<lambda>st. length (cameras st))
        (read_calibration_file sample_environment (dice_xml_file 8 plain_camera) Camera_System)
     = Inr 8"
    by (simp add: read_calibration_file_def dice_xml_file_def read_dice_xml_def head names
        max r8 none8 read_6_transform_def read_4x4_transform_def and_then_def Camera_System_def
        del: append_Cons upt_Suc)
  from a b show ?thesis by simp
qed

end
